theory Spec2Isabelle
  imports Complex_Main "HOL-Library.Log_Nat"
begin

section \<open>PremiumRoute: identifiers, charges, status history, aggregates, rates\<close>

text \<open>
  A shallow embedding of the PremiumRoute back office: the \<open>save\<close> methods of the
  models (\<open>shipping/models.py\<close>, \<open>consignment/models.py\<close>, \<open>payments/models.py\<close>),
  the status handlers (\<open>shipping/views.py\<close>, \<open>tracking/views.py\<close>), the approval
  action, the report aggregates and the rate calculator (\<open>api/views.py\<close>,
  \<open>reports/views.py\<close>).

  Conventions. A finite \<open>Decimal\<close> is the rational number it denotes; its arithmetic
  rounds as the \<open>decimal\<close> module does. A Python exception is a value of \<open>exn\<close>,
  and a function that may raise returns \<open>exn + 'a\<close> with \<open>Inl\<close> for the
  exception. The relational store is a record of tables, each a list of rows in
  insertion order; a handler takes the store and returns the new one. The settings
  (\<open>PremiumRoute/settings.py\<close>) configure the \<open>sqlite3\<close> engine and
  \<open>DEBUG = env.bool('DEBUG', default=True)\<close>.
\<close>

datatype exn =
    ValueError | TypeError | OverflowError | AttributeError | UnboundLocalError
  | ZeroDivisionError | IntegrityError | Http404
  | InvalidOperation | DoesNotExist | PermissionDenied | OperationalError

subsection \<open>Decimal numbers\<close>

text \<open>
  The \<open>decimal\<close> module rounds the exact result of an operation to the precision of
  the context, ties to the even digit (\<open>ROUND_HALF_EVEN\<close>). \<open>round_half_even z\<close> is
  the integer nearest to \<open>z\<close>, the even one of the two when \<open>z\<close> lies halfway.
\<close>

definition round_half_even :: "rat \<Rightarrow> int" where
  "round_half_even z =
     (let n = \<lfloor>z\<rfloor>; r = z - of_int n
      in if r < 1 / 2 then n
         else if 1 / 2 < r then n + 1
         else if even n then n else n + 1)"

text \<open>
  For \<open>a > 0\<close>, \<open>decade a\<close> is the exponent \<open>e\<close> with \<open>10^e \<le> a < 10^(e+1)\<close>, found
  from the digit counts of numerator and denominator. \<open>decimal_round prec x\<close> is
  \<open>x\<close> rounded to \<open>prec\<close> significant digits.
\<close>

definition decade :: "rat \<Rightarrow> int" where
  "decade a =
     (let (p, q) = quotient_of a; d = int (floorlog 10 (nat p)) - int (floorlog 10 (nat q))
      in if 10 powi d \<le> a then d else d - 1)"

definition decimal_round :: "nat \<Rightarrow> rat \<Rightarrow> rat" where
  "decimal_round prec x =
     (if x = 0 then 0
      else
        (let unit = 10 powi (decade \<bar>x\<bar> + 1 - int prec);
             m = of_int (round_half_even (\<bar>x\<bar> / unit)) * unit
         in if 0 < x then m else - m))"

text \<open>
  \<open>a + b\<close> on two \<open>Decimal\<close>s (or a \<open>Decimal\<close> and an \<open>int\<close>) in the default
  context, whose precision is 28 digits.
\<close>

definition Decimal_add :: "rat \<Rightarrow> rat \<Rightarrow> rat" where
  "Decimal_add a b = decimal_round 28 (a + b)"

text \<open>
  \<open>x.quantize(Decimal(1).scaleb(-places))\<close>: \<open>x\<close> rounded to \<open>places\<close> decimal
  places. \<open>decimal_places n x\<close> holds when \<open>x\<close> has no digit after the \<open>n\<close>-th
  decimal place.
\<close>

definition quantize :: "nat \<Rightarrow> rat \<Rightarrow> rat" where
  "quantize places x = of_int (round_half_even (x * 10 ^ places)) / 10 ^ places"

definition decimal_places :: "nat \<Rightarrow> rat \<Rightarrow> bool" where
  "decimal_places n x \<longleftrightarrow> of_int \<lfloor>x * 10 ^ n\<rfloor> = x * 10 ^ n"

text \<open>
  The six charge columns of a consignment are declared
  \<open>DecimalField(max_digits=10, decimal_places=2)\<close>. \<open>Model.save\<close> does not validate:
  it hands the \<open>Decimal\<close> to the store, which keeps a number with its first 15
  significant digits. A read converts what the store holds with
  \<open>create_decimal(value).quantize(Decimal('0.01'), context=Context(prec=10))\<close>
  (\<open>get_decimalfield_converter\<close> of the engine): the value comes back with two decimal
  places, and the read raises \<open>InvalidOperation\<close> when that takes more than ten
  digits. \<open>DecimalField_stored x\<close> is the number that a written \<open>x\<close> comes back as,
  \<open>DecimalField_fits\<close> tells whether the column can give it back, and
  \<open>DecimalField_valid\<close> is what the validation of the forms and serializers
  accepts for the field.
\<close>

definition DecimalField_stored :: "rat \<Rightarrow> rat" where
  "DecimalField_stored x = quantize 2 (decimal_round 15 x)"



subsection \<open>Identifier generation\<close>

text \<open>
  \<open>str(n)\<close> for a non-negative integer: its decimal digits, most significant first.
\<close>

definition digit_char :: "nat \<Rightarrow> char" where
  "digit_char d = ''0123456789'' ! (d mod 10)"

function str_nat :: "nat \<Rightarrow> string" where
  "str_nat n = (if n < 10 then [digit_char n] else str_nat (n div 10) @ [digit_char n])"
  by pat_completeness auto
termination
  by (relation "measure (\<lambda>n. n)") auto

declare str_nat.simps [simp del]

text \<open>\<open>str.upper()\<close> on ASCII text: the letters a to z are mapped to A to Z.\<close>

definition upper_char :: "char \<Rightarrow> char" where
  "upper_char c =
     (case map_of (zip ''abcdefghijklmnopqrstuvwxyz'' ''ABCDEFGHIJKLMNOPQRSTUVWXYZ'') c of
        None \<Rightarrow> c | Some C \<Rightarrow> C)"

definition upper :: "string \<Rightarrow> string" where
  "upper s = map upper_char s"

text \<open>
  The three generators. The argument \<open>u\<close> is \<open>uuid.uuid4().int\<close>, the random
  128-bit value, which the caller draws.
  \<^item> \<open>Shipment.generate_tracking_number\<close>: \<open>f"SH{str(uuid.uuid4().int)[:10].upper()}"\<close>
  \<^item> \<open>Consignment.generate_consignment_number\<close>: \<open>f"CN{str(uuid.uuid4().int)[:12].upper()}"\<close>
  \<^item> in \<open>Payment.save\<close>: \<open>f"PAY{str(uuid.uuid4().int)[:12].upper()}"\<close>
\<close>

definition generate_tracking_number :: "nat \<Rightarrow> string" where
  "generate_tracking_number u = ''SH'' @ upper (take 10 (str_nat u))"

definition generate_consignment_number :: "nat \<Rightarrow> string" where
  "generate_consignment_number u = ''CN'' @ upper (take 12 (str_nat u))"

definition generate_payment_id :: "nat \<Rightarrow> string" where
  "generate_payment_id u = ''PAY'' @ upper (take 12 (str_nat u))"

subsection \<open>Rows and the store\<close>

text \<open>
  Each record keeps the columns that the modelled code reads or writes; \<open>pk\<close> is the
  primary key, \<open>None\<close> on an object that was never saved. Foreign keys are the
  primary key of the row referred to. The columns set by the storage layer on its own
  (\<open>created_at\<close>, \<open>updated_at\<close>) are left out, except the creation day that
  the reports filter on.
\<close>

record user =
  uid :: nat
  email :: string
  user_type :: string

record shipment =
  pk :: "nat option"
  tracking_number :: string
  owner :: nat
  status :: string
  payment_status :: string
  shipping_method :: string
  sender_country :: string
  receiver_country :: string
  weight :: rat
  shipping_cost :: rat
  insurance_cost :: rat
  tax :: rat
  total_cost :: rat
  created_on :: nat
  created_by :: "nat option"

record shipment_history =
  h_shipment :: nat
  h_status :: string
  h_location :: string
  h_description :: string
  h_created_by :: "nat option"

record consignment =
  c_pk :: "nat option"
  consignment_number :: string
  c_owner :: nat
  c_status :: string
  freight_charges :: rat
  handling_charges :: rat
  insurance_charges :: rat
  customs_charges :: rat
  other_charges :: rat
  total_charges :: rat
  approved_by :: "nat option"
  approved_at :: "nat option"

record consignment_history =
  ch_consignment :: nat
  ch_status :: string
  ch_location :: string
  ch_description :: string
  ch_created_by :: "nat option"

record payment =
  p_pk :: "nat option"
  payment_id :: string
  p_owner :: "nat option"
  p_status :: string
  payment_method :: string
  amount :: rat
  p_created_on :: nat

record store =
  shipments :: "shipment list"
  shipment_histories :: "shipment_history list"
  consignments :: "consignment list"
  consignment_histories :: "consignment_history list"
  payments :: "payment list"

text \<open>
  \<open>Model.save\<close> of the framework, on one table. The identifier column is declared
  \<open>unique=True\<close>: a row whose identifier another row already holds is refused with
  \<open>IntegrityError\<close>. An object without primary key is inserted under the next
  key; one with a primary key replaces the row of that key (or is inserted when no
  such row exists).
\<close>

definition next_pk :: "nat option list \<Rightarrow> nat" where
  "next_pk ks = Suc (fold (\<lambda>k m. case k of None \<Rightarrow> m | Some i \<Rightarrow> max i m) ks 0)"

definition model_save ::
  "('r \<Rightarrow> nat option) \<Rightarrow> (nat \<Rightarrow> 'r \<Rightarrow> 'r) \<Rightarrow> ('r \<Rightarrow> string) \<Rightarrow> 'r \<Rightarrow> 'r list
     \<Rightarrow> exn + ('r \<times> 'r list)" where
  "model_save key set_key ident r rows =
     (if list_ex (\<lambda>x. key x \<noteq> key r \<and> ident x = ident r) rows then Inl IntegrityError
      else case key r of
        None \<Rightarrow>
          (let r' = set_key (next_pk (map key rows)) r in Inr (r', rows @ [r']))
      | Some i \<Rightarrow>
          (if list_ex (\<lambda>x. key x = Some i) rows
           then Inr (r, map (\<lambda>x. if key x = Some i then r else x) rows)
           else Inr (r, rows @ [r])))"

text \<open>
  \<open>Shipment.save\<close> (\<open>shipping/models.py\<close>):
  \<^verbatim>\<open>
    def save(self, *args, **kwargs):
        if not self.tracking_number:
            self.tracking_number = self.generate_tracking_number()
        super().save(*args, **kwargs)
  \<close>
  The result is the object as it is after the call, and the new store.
\<close>

definition Shipment_save :: "nat \<Rightarrow> shipment \<Rightarrow> store \<Rightarrow> exn + (shipment \<times> store)" where
  "Shipment_save u self db =
     (let self1 = (if tracking_number self = []
                   then self\<lparr>tracking_number := generate_tracking_number u\<rparr> else self)
      in case model_save pk (\<lambda>i r. r\<lparr>pk := Some i\<rparr>) tracking_number self1 (shipments db) of
           Inl e \<Rightarrow> Inl e
         | Inr (self2, rows) \<Rightarrow> Inr (self2, db\<lparr>shipments := rows\<rparr>))"

text \<open>
  \<open>Consignment.save\<close> (\<open>consignment/models.py\<close>):
  \<^verbatim>\<open>
    def save(self, *args, **kwargs):
        if not self.consignment_number:
            self.consignment_number = self.generate_consignment_number()
        # Calculate total charges
        self.total_charges = (
            self.freight_charges + self.handling_charges + self.insurance_charges +
            self.customs_charges + self.other_charges
        )
        super().save(*args, **kwargs)
  \<close>
  The object keeps the values it was given and the total computed from them; the table
  receives \<open>Consignment_row\<close> of it, the row with each charge column as the store
  gives it back. The result is the object as it is after the call (with the primary
  key that the store assigned) and the new store.
\<close>

definition Consignment_row :: "consignment \<Rightarrow> consignment" where
  "Consignment_row c =
     c\<lparr>freight_charges := DecimalField_stored (freight_charges c),
       handling_charges := DecimalField_stored (handling_charges c),
       insurance_charges := DecimalField_stored (insurance_charges c),
       customs_charges := DecimalField_stored (customs_charges c),
       other_charges := DecimalField_stored (other_charges c),
       total_charges := DecimalField_stored (total_charges c)\<rparr>"

definition Consignment_save ::
  "nat \<Rightarrow> consignment \<Rightarrow> store \<Rightarrow> exn + (consignment \<times> store)" where
  "Consignment_save u self db =
     (let self1 = (if consignment_number self = []
                   then self\<lparr>consignment_number := generate_consignment_number u\<rparr>
                   else self);
          self2 = self1\<lparr>total_charges :=
                    Decimal_add
                      (Decimal_add
                        (Decimal_add
                          (Decimal_add (freight_charges self1) (handling_charges self1))
                          (insurance_charges self1))
                        (customs_charges self1))
                      (other_charges self1)\<rparr>
      in case model_save c_pk (\<lambda>i r. r\<lparr>c_pk := Some i\<rparr>) consignment_number
                (Consignment_row self2) (consignments db) of
           Inl e \<Rightarrow> Inl e
         | Inr (row, rows) \<Rightarrow> Inr (self2\<lparr>c_pk := c_pk row\<rparr>, db\<lparr>consignments := rows\<rparr>))"




text \<open>
  \<open>Payment.save\<close> (\<open>payments/models.py\<close>):
  \<^verbatim>\<open>
    def save(self, *args, **kwargs):
        if not self.payment_id:
            self.payment_id = f"PAY{str(uuid.uuid4().int)[:12].upper()}"
        super().save(*args, **kwargs)
  \<close>
\<close>

definition Payment_save :: "nat \<Rightarrow> payment \<Rightarrow> store \<Rightarrow> exn + (payment \<times> store)" where
  "Payment_save u self db =
     (let self1 = (if payment_id self = []
                   then self\<lparr>payment_id := generate_payment_id u\<rparr> else self)
      in case model_save p_pk (\<lambda>i r. r\<lparr>p_pk := Some i\<rparr>) payment_id self1 (payments db) of
           Inl e \<Rightarrow> Inl e
         | Inr (self2, rows) \<Rightarrow> Inr (self2, db\<lparr>payments := rows\<rparr>))"

subsection \<open>Status changes and their history\<close>

text \<open>
  \<open>ShipmentHistory.objects.create(shipment=..., status=..., location=...,
  description=..., created_by=...)\<close> and its consignment twin. The row refers to the
  parent by primary key, so a parent that was never saved is refused (\<open>ValueError\<close>);
  the three text columns are declared without \<open>null=True\<close>, so a \<open>None\<close> among
  them is refused by the store (\<open>IntegrityError\<close>).
\<close>

definition ShipmentHistory_create ::
  "shipment \<Rightarrow> string option \<Rightarrow> string option \<Rightarrow> string option \<Rightarrow> nat option \<Rightarrow> store
     \<Rightarrow> exn + store" where
  "ShipmentHistory_create parent st loc descr by db =
     (case pk parent of
        None \<Rightarrow> Inl ValueError
      | Some i \<Rightarrow>
          (case (st, loc, descr) of
             (Some s, Some l, Some d) \<Rightarrow>
               Inr (db\<lparr>shipment_histories := shipment_histories db @
                      [\<lparr>h_shipment = i, h_status = s, h_location = l, h_description = d,
                        h_created_by = by\<rparr>]\<rparr>)
           | _ \<Rightarrow> Inl IntegrityError))"

definition ConsignmentHistory_create ::
  "consignment \<Rightarrow> string option \<Rightarrow> string option \<Rightarrow> string option \<Rightarrow> nat option \<Rightarrow> store
     \<Rightarrow> exn + store" where
  "ConsignmentHistory_create parent st loc descr by db =
     (case c_pk parent of
        None \<Rightarrow> Inl ValueError
      | Some i \<Rightarrow>
          (case (st, loc, descr) of
             (Some s, Some l, Some d) \<Rightarrow>
               Inr (db\<lparr>consignment_histories := consignment_histories db @
                      [\<lparr>ch_consignment = i, ch_status = s, ch_location = l,
                        ch_description = d, ch_created_by = by\<rparr>]\<rparr>)
           | _ \<Rightarrow> Inl IntegrityError))"

text \<open>The history rows of one shipment: \<open>shipment.history.all()\<close>.\<close>

definition history_of :: "store \<Rightarrow> shipment \<Rightarrow> shipment_history list" where
  "history_of db s = filter (\<lambda>h. Some (h_shipment h) = pk s) (shipment_histories db)"

text \<open>
  What a page view answers: a redirect to a named route with its argument and the
  flash message queued with it, a rendered template, or the redirect to the login page
  that \<open>@login_required\<close> gives an anonymous visitor.
\<close>

datatype page =
    Redirect string string "string option"
  | Render string
  | LoginRequired

text \<open>
  A handler returns what it answers (or the exception that escapes it) and the store
  as the handler leaves it. No handler opens a transaction and the settings do not set
  \<open>ATOMIC_REQUESTS\<close>, so every save is committed by itself: when a later statement
  raises, the store returned holds the writes made before it.

  \<open>create_shipment\<close> (\<open>shipping/views.py\<close>):
  \<^verbatim>\<open>
    @login_required
    def create_shipment(request):
        if request.method == 'POST':
            form = ShipmentForm(request.POST)
            if form.is_valid():
                shipment = form.save(commit=False)
                shipment.user = request.user
                shipment.created_by = request.user
                shipping_cost = calculate_shipping_cost(
                    shipment.weight, shipment.shipping_method,
                    shipment.sender_country, shipment.receiver_country)
                shipment.shipping_cost = shipping_cost
                shipment.total_cost = shipping_cost + shipment.insurance_cost + shipment.tax
                shipment.save()
                ShipmentHistory.objects.create(
                    shipment=shipment, status='pending',
                    description='Shipment created successfully')
                messages.success(request, f'Shipment created successfully! Tracking Number: ...')
                return redirect('shipment_detail', tracking_number=shipment.tracking_number)
        else:
            form = ShipmentForm()
        return render(request, 'shipping/create_shipment.html', {'form': form})
  \<close>
  \<open>ShipmentForm\<close> (\<open>shipping/forms.py\<close>) and \<open>calculate_shipping_cost\<close>
  (\<open>shipping/utils.py\<close>) are not among the sources: the form's outcome is the
  argument \<open>form\<close> (\<open>None\<close> when \<open>is_valid()\<close> is false, otherwise the unsaved
  object of \<open>form.save(commit=False)\<close>) and the tariff is the argument \<open>cost\<close>.
\<close>

definition create_shipment ::
  "(rat \<Rightarrow> string \<Rightarrow> string \<Rightarrow> string \<Rightarrow> rat) \<Rightarrow> nat \<Rightarrow> user option \<Rightarrow> string
     \<Rightarrow> shipment option \<Rightarrow> store \<Rightarrow> (exn + page) \<times> store" where
  "create_shipment cost u request_user method form db =
     (case request_user of
        None \<Rightarrow> (Inr LoginRequired, db)
      | Some usr \<Rightarrow>
          if method = ''POST'' then
            (case form of
               None \<Rightarrow> (Inr (Render ''shipping/create_shipment.html''), db)
             | Some shipment0 \<Rightarrow>
                 (let shipment1 = shipment0\<lparr>owner := uid usr, created_by := Some (uid usr)\<rparr>;
                      shipping_cost = cost (weight shipment1) (shipping_method shipment1)
                                        (sender_country shipment1) (receiver_country shipment1);
                      shipment2 = shipment1\<lparr>shipping_cost := shipping_cost\<rparr>;
                      shipment3 = shipment2\<lparr>total_cost :=
                                    shipping_cost + insurance_cost shipment2 + tax shipment2\<rparr>
                  in case Shipment_save u shipment3 db of
                       Inl e \<Rightarrow> (Inl e, db)
                     | Inr (shipment, db1) \<Rightarrow>
                         (case ShipmentHistory_create shipment (Some ''pending'') (Some [])
                                 (Some ''Shipment created successfully'') None db1 of
                            Inl e \<Rightarrow> (Inl e, db1)
                          | Inr db2 \<Rightarrow>
                              (Inr (Redirect ''shipment_detail'' (tracking_number shipment)
                                      (Some (''Shipment created successfully! Tracking Number: ''
                                             @ tracking_number shipment))),
                               db2))))
          else (Inr (Render ''shipping/create_shipment.html''), db))"

text \<open>
  \<open>update_shipment_status\<close> (\<open>shipping/views.py\<close>):
  \<^verbatim>\<open>
    @login_required
    def update_shipment_status(request, tracking_number):
        shipment = get_object_or_404(Shipment, tracking_number=tracking_number)
        if request.method == 'POST':
            new_status = request.POST.get('status')
            location = request.POST.get('location', '')
            description = request.POST.get('description', '')
            if new_status and new_status != shipment.status:
                shipment.status = new_status
                shipment.save()
                ShipmentHistory.objects.create(
                    shipment=shipment, status=new_status, location=location,
                    description=description, created_by=request.user)
                messages.success(request, f'Shipment status updated to {new_status}')
        return redirect('shipment_detail', tracking_number=tracking_number)
  \<close>
  \<open>POST\<close> is the submitted form: a key is absent or holds a string.
\<close>

definition post_get :: "(string \<rightharpoonup> string) \<Rightarrow> string \<Rightarrow> string \<Rightarrow> string" where
  "post_get POST k dflt = (case POST k of None \<Rightarrow> dflt | Some v \<Rightarrow> v)"

definition update_shipment_status ::
  "nat \<Rightarrow> user option \<Rightarrow> string \<Rightarrow> (string \<rightharpoonup> string) \<Rightarrow> string \<Rightarrow> store
     \<Rightarrow> (exn + page) \<times> store" where
  "update_shipment_status u request_user method POST tracking db =
     (case request_user of
        None \<Rightarrow> (Inr LoginRequired, db)
      | Some usr \<Rightarrow>
          (case find (\<lambda>s. tracking_number s = tracking) (shipments db) of
             None \<Rightarrow> (Inl Http404, db)
           | Some shipment \<Rightarrow>
               if method = ''POST'' then
                 (let new_status = POST ''status'';
                      location = post_get POST ''location'' [];
                      description = post_get POST ''description'' []
                  in case new_status of
                       None \<Rightarrow> (Inr (Redirect ''shipment_detail'' tracking None), db)
                     | Some ns \<Rightarrow>
                         if ns \<noteq> [] \<and> ns \<noteq> status shipment then
                           (case Shipment_save u (shipment\<lparr>status := ns\<rparr>) db of
                              Inl e \<Rightarrow> (Inl e, db)
                            | Inr (shipment1, db1) \<Rightarrow>
                                (case ShipmentHistory_create shipment1 (Some ns) (Some location)
                                        (Some description) (Some (uid usr)) db1 of
                                   Inl e \<Rightarrow> (Inl e, db1)
                                 | Inr db2 \<Rightarrow>
                                     (Inr (Redirect ''shipment_detail'' tracking
                                             (Some (''Shipment status updated to '' @ ns))),
                                      db2)))
                         else (Inr (Redirect ''shipment_detail'' tracking None), db))
               else (Inr (Redirect ''shipment_detail'' tracking None), db)))"

text \<open>
  \<open>webhook_update\<close> (\<open>tracking/views.py\<close>):
  \<^verbatim>\<open>
    @csrf_exempt
    def webhook_update(request):
        if request.method == 'POST':
            try:
                data = json.loads(request.body)
                tracking_number = data.get('tracking_number')
                status = data.get('status')
                location = data.get('location', '')
                description = data.get('description', '')
                shipment = Shipment.objects.filter(tracking_number=tracking_number).first()
                if shipment:
                    shipment.status = status
                    shipment.save()
                    ShipmentHistory.objects.create(
                        shipment=shipment, status=status,
                        location=location, description=description)
                    return JsonResponse({'success': True})
                consignment = Consignment.objects.filter(
                    consignment_number=tracking_number).first()
                if consignment:
                    consignment.status = status
                    consignment.save()
                    ConsignmentHistory.objects.create(
                        consignment=consignment, status=status,
                        location=location, description=description)
                    return JsonResponse({'success': True})
                return JsonResponse(
                    {'success': False, 'error': 'Tracking number not found'}, status=404)
            except Exception as e:
                return JsonResponse({'success': False, 'error': str(e)}, status=400)
        return JsonResponse({'success': False, 'error': 'Invalid method'}, status=405)
  \<close>
  The body is \<open>Inl e\<close> when \<open>json.loads\<close> or the first \<open>data.get\<close> raises
  \<open>e\<close> (the body is not a JSON object), otherwise the object: a key is absent, or
  holds \<open>null\<close> (\<open>None\<close>) or a string. A lookup by \<open>None\<close> matches no row. The
  status column is declared without \<open>null=True\<close>, so saving a parent whose status
  is \<open>None\<close> is refused by the store.
\<close>

datatype json_response =
    JsonSuccess
  | JsonMessage string
  | JsonError string nat
  | JsonException exn nat

definition data_get :: "(string \<rightharpoonup> string option) \<Rightarrow> string \<Rightarrow> string option \<Rightarrow> string option"
  where
  "data_get data k dflt = (case data k of None \<Rightarrow> dflt | Some v \<Rightarrow> v)"

definition webhook_update ::
  "nat \<Rightarrow> string \<Rightarrow> exn + (string \<rightharpoonup> string option) \<Rightarrow> store \<Rightarrow> json_response \<times> store" where
  "webhook_update u method body db =
     (if method = ''POST'' then
        (case body of
           Inl e \<Rightarrow> (JsonException e 400, db)
         | Inr data \<Rightarrow>
             (let tracking = data_get data ''tracking_number'' None;
                  st = data_get data ''status'' None;
                  location = data_get data ''location'' (Some []);
                  description = data_get data ''description'' (Some [])
              in case find (\<lambda>s. Some (tracking_number s) = tracking) (shipments db) of
                   Some shipment \<Rightarrow>
                     (case st of
                        None \<Rightarrow> (JsonException IntegrityError 400, db)
                      | Some ns \<Rightarrow>
                          (case Shipment_save u (shipment\<lparr>status := ns\<rparr>) db of
                             Inl e \<Rightarrow> (JsonException e 400, db)
                           | Inr (shipment1, db1) \<Rightarrow>
                               (case ShipmentHistory_create shipment1 st location description
                                       None db1 of
                                  Inl e \<Rightarrow> (JsonException e 400, db1)
                                | Inr db2 \<Rightarrow> (JsonSuccess, db2))))
                 | None \<Rightarrow>
                     (case find (\<lambda>c. Some (consignment_number c) = tracking)
                             (consignments db) of
                        Some consignment \<Rightarrow>
                          (case st of
                             None \<Rightarrow> (JsonException IntegrityError 400, db)
                           | Some ns \<Rightarrow>
                               (case Consignment_save u (consignment\<lparr>c_status := ns\<rparr>) db of
                                  Inl e \<Rightarrow> (JsonException e 400, db)
                                | Inr (consignment1, db1) \<Rightarrow>
                                    (case ConsignmentHistory_create consignment1 st location
                                            description None db1 of
                                       Inl e \<Rightarrow> (JsonException e 400, db1)
                                     | Inr db2 \<Rightarrow> (JsonSuccess, db2))))
                      | None \<Rightarrow> (JsonError ''Tracking number not found'' 404, db))))
      else (JsonError ''Invalid method'' 405, db))"

text \<open>
  \<open>TrackingWebhookView.post\<close> (\<open>api/views.py\<close>), the twin of the webhook in the
  API:
  \<^verbatim>\<open>
    from rest_framework import viewsets, status, permissions, filters
    ...
    def post(self, request):
        try:
            data = request.data
            tracking_number = data.get('tracking_number')
            status = data.get('status')
            location = data.get('location', '')
            description = data.get('description', '')
            shipment = Shipment.objects.filter(tracking_number=tracking_number).first()
            if shipment:
                shipment.status = status
                shipment.save()
                ShipmentHistory.objects.create(
                    shipment=shipment, status=status,
                    location=location, description=description)
                return Response({
                    'success': True,
                    'message': f'Shipment {tracking_number} updated to {status}'})
            consignment = Consignment.objects.filter(
                consignment_number=tracking_number).first()
            if consignment:
                ... (the same for the consignment)
            return Response({'success': False, 'error': 'Tracking number not found'},
                            status=status.HTTP_404_NOT_FOUND)
        except Exception as e:
            return Response({'success': False, 'error': str(e)},
                            status=status.HTTP_400_BAD_REQUEST)
  \<close>
  The assignment \<open>status = data.get('status')\<close> makes \<open>status\<close> a local name of
  the whole function, so \<open>status.HTTP_404_NOT_FOUND\<close> and
  \<open>status.HTTP_400_BAD_REQUEST\<close> read an attribute of the requested status (a string
  or \<open>None\<close>) and raise \<open>AttributeError\<close>; in the handler that exception escapes
  the view. When the data cannot be read the local is still unbound and the handler
  raises \<open>UnboundLocalError\<close>.
\<close>

definition TrackingWebhookView_post ::
  "nat \<Rightarrow> exn + (string \<rightharpoonup> string option) \<Rightarrow> store \<Rightarrow> (exn + json_response) \<times> store"
  where
  "TrackingWebhookView_post u request_data db =
     (case request_data of
        Inl e \<Rightarrow> (Inl UnboundLocalError, db)
      | Inr data \<Rightarrow>
          (let tracking = data_get data ''tracking_number'' None;
               st = data_get data ''status'' None;
               location = data_get data ''location'' (Some []);
               description = data_get data ''description'' (Some [])
           in case find (\<lambda>s. Some (tracking_number s) = tracking) (shipments db) of
                Some shipment \<Rightarrow>
                  (case st of
                     None \<Rightarrow> (Inl AttributeError, db)
                   | Some ns \<Rightarrow>
                       (case Shipment_save u (shipment\<lparr>status := ns\<rparr>) db of
                          Inl e \<Rightarrow> (Inl AttributeError, db)
                        | Inr (shipment1, db1) \<Rightarrow>
                            (case ShipmentHistory_create shipment1 st location description
                                    None db1 of
                               Inl e \<Rightarrow> (Inl AttributeError, db1)
                             | Inr db2 \<Rightarrow>
                                 (Inr (JsonMessage (''Shipment '' @ tracking_number shipment
                                                    @ '' updated to '' @ ns)),
                                  db2))))
              | None \<Rightarrow>
                  (case find (\<lambda>c. Some (consignment_number c) = tracking)
                          (consignments db) of
                     Some consignment \<Rightarrow>
                       (case st of
                          None \<Rightarrow> (Inl AttributeError, db)
                        | Some ns \<Rightarrow>
                            (case Consignment_save u (consignment\<lparr>c_status := ns\<rparr>) db of
                               Inl e \<Rightarrow> (Inl AttributeError, db)
                             | Inr (consignment1, db1) \<Rightarrow>
                                 (case ConsignmentHistory_create consignment1 st location
                                         description None db1 of
                                    Inl e \<Rightarrow> (Inl AttributeError, db1)
                                  | Inr db2 \<Rightarrow>
                                      (Inr (JsonMessage
                                              (''Consignment '' @ consignment_number consignment
                                               @ '' updated to '' @ ns)),
                                       db2))))
                   | None \<Rightarrow> (Inl AttributeError, db))))"

subsection \<open>Approval of a consignment\<close>







subsection \<open>Aggregates\<close>

text \<open>
  \<open>queryset.aggregate(Sum(col))[...]\<close> and \<open>queryset.aggregate(Avg(col))[...]\<close>: SQL
  gives \<open>NULL\<close>, hence \<open>None\<close>, over no rows. Over some rows the store computes the
  number and the engine's converter hands it over with 15 significant digits
  (\<open>Context(prec=15).create_decimal_from_float\<close>). \<open>x or 0\<close> is \<open>0\<close> when \<open>x\<close>
  is \<open>None\<close> or zero. \<open>a / n\<close>, for a sum \<open>a\<close> and a count \<open>n\<close>, raises
  \<open>ZeroDivisionError\<close> when \<open>n\<close> is zero; otherwise it is the quotient rounded to
  the 28 digits of the \<open>decimal\<close> context.
\<close>

definition Sum_agg :: "rat list \<Rightarrow> rat option" where
  "Sum_agg xs = (if xs = [] then None else Some (decimal_round 15 (sum_list xs)))"

definition Avg_agg :: "rat list \<Rightarrow> rat option" where
  "Avg_agg xs =
     (if xs = [] then None else Some (decimal_round 15 (sum_list xs / of_nat (length xs))))"

definition or_0 :: "rat option \<Rightarrow> rat" where
  "or_0 x = (case x of None \<Rightarrow> 0 | Some v \<Rightarrow> if v = 0 then 0 else v)"

definition true_div :: "rat \<Rightarrow> nat \<Rightarrow> exn + rat" where
  "true_div a n =
     (if n = 0 then Inl ZeroDivisionError else Inr (decimal_round 28 (a / of_nat n)))"

text \<open>
  \<open>queryset.values(key).annotate(count=Count('id'), total=Sum(col))\<close>: one group for
  each value of the key among the rows, with the number of its rows and the sum of the
  column over them. \<open>ks\<close> lists the keys in the order of the answer.
\<close>

definition annotate ::
  "('r \<Rightarrow> 'k) \<Rightarrow> ('r \<Rightarrow> rat) \<Rightarrow> 'r list \<Rightarrow> 'k list \<Rightarrow> ('k \<times> nat \<times> rat option) list" where
  "annotate key col rows ks =
     map (\<lambda>k. (k, length (filter (\<lambda>r. key r = k) rows),
               Sum_agg (map col (filter (\<lambda>r. key r = k) rows)))) ks"

text \<open>
  The monthly trend of the two API reports:
  \<^verbatim>\<open>
    queryset.extra({'month': "strftime('%Y-%m', created_at)"}
        ).values('month').annotate(count=Count('id'), revenue=Sum(col)).order_by('month')
  \<close>
  The engine knows \<open>strftime\<close> and runs the statement. With \<open>DEBUG\<close> on, the
  cursor then formats the statement with its parameters for the query log
  (\<open>sql % params\<close> in \<open>last_executed_query\<close> of the engine), and the \<open>%Y\<close> of the
  fragment is no conversion of that format: \<open>ValueError\<close> leaves the view. A statement
  without parameters is logged as it is. \<open>debug\<close> is \<open>settings.DEBUG\<close>,
  \<open>has_params\<close> tells whether the queryset filters on a value, and \<open>month d\<close> is
  the month that the day \<open>d\<close> falls in, numbered in the order of the texts
  \<open>YYYY-MM\<close>.
\<close>

definition strftime_months ::
  "bool \<Rightarrow> bool \<Rightarrow> (nat \<Rightarrow> nat) \<Rightarrow> ('r \<Rightarrow> nat) \<Rightarrow> ('r \<Rightarrow> rat) \<Rightarrow> 'r list
     \<Rightarrow> exn + (nat \<times> nat \<times> rat option) list" where
  "strftime_months debug has_params month created col rows =
     (if debug \<and> has_params then Inl ValueError
      else Inr (annotate (\<lambda>r. month (created r)) col rows
                  (sort (remdups (map (\<lambda>r. month (created r)) rows)))))"

text \<open>
  \<open>ShipmentViewSet.get_queryset\<close> (\<open>api/views.py\<close>):
  \<^verbatim>\<open>
    def get_queryset(self):
        user = self.request.user
        if user.user_type in ['admin', 'staff']:
            return Shipment.objects.all()
        return Shipment.objects.filter(user=user)
  \<close>
\<close>

definition get_queryset :: "user \<Rightarrow> store \<Rightarrow> shipment list" where
  "get_queryset usr db =
     (if user_type usr \<in> set [''admin'', ''staff''] then shipments db
      else filter (\<lambda>s. owner s = uid usr) (shipments db))"

text \<open>
  \<open>ShipmentViewSet.stats\<close> (\<open>api/views.py\<close>):
  \<^verbatim>\<open>
    def stats(self, request):
        user = request.user
        queryset = self.get_queryset()
        total = queryset.count()
        pending = queryset.filter(status='pending').count()
        in_transit = queryset.filter(status='in_transit').count()
        delivered = queryset.filter(status='delivered').count()
        total_spent = queryset.aggregate(Sum('total_cost'))['total_cost__sum'] or 0
        return Response({
            'total_shipments': total, 'pending_shipments': pending,
            'in_transit_shipments': in_transit, 'delivered_shipments': delivered,
            'total_spent': total_spent,
            'average_cost': total_spent / total if total > 0 else 0})
  \<close>
\<close>

record stats_response =
  total_shipments :: nat
  pending_shipments :: nat
  in_transit_shipments :: nat
  delivered_shipments :: nat
  total_spent :: rat
  average_cost :: rat

definition stats :: "user \<Rightarrow> store \<Rightarrow> exn + stats_response" where
  "stats request_user db =
     (let queryset = get_queryset request_user db;
          total = length queryset;
          pending = length (filter (\<lambda>s. status s = ''pending'') queryset);
          in_transit = length (filter (\<lambda>s. status s = ''in_transit'') queryset);
          delivered = length (filter (\<lambda>s. status s = ''delivered'') queryset);
          total_spent = or_0 (Sum_agg (map total_cost queryset))
      in case (if total > 0 then true_div total_spent total else Inr 0) of
           Inl e \<Rightarrow> Inl e
         | Inr average \<Rightarrow>
             Inr \<lparr>total_shipments = total, pending_shipments = pending,
                  in_transit_shipments = in_transit, delivered_shipments = delivered,
                  total_spent = total_spent, average_cost = average\<rparr>)"

text \<open>
  \<open>ShipmentReportView.get\<close> (\<open>api/views.py\<close>):
  \<^verbatim>\<open>
    def get(self, request):
        user = request.user
        start_date = request.query_params.get('start_date')
        end_date = request.query_params.get('end_date')
        if user.user_type in ['admin', 'staff']:
            queryset = Shipment.objects.all()
        else:
            queryset = Shipment.objects.filter(user=user)
        if start_date:
            queryset = queryset.filter(created_at__date__gte=start_date)
        if end_date:
            queryset = queryset.filter(created_at__date__lte=end_date)
        total = queryset.count()
        total_revenue = queryset.aggregate(Sum('total_cost'))['total_cost__sum'] or 0
        status_distribution = queryset.values('status').annotate(
            count=Count('id'), revenue=Sum('total_cost'))
        monthly_data = queryset.extra(
            {'month': "strftime('%Y-%m', created_at)"}
        ).values('month').annotate(
            count=Count('id'), revenue=Sum('total_cost')).order_by('month')
        return Response({
            'total_shipments': total, 'total_revenue': total_revenue,
            'average_value': total_revenue / total if total > 0 else 0,
            'status_distribution': list(status_distribution),
            'monthly_trend': list(monthly_data)})
  \<close>
  A date is a day number; a bound is \<open>None\<close> when the query parameter is absent or
  empty. The two grouped querysets are evaluated by \<open>list\<close>, after the average. The
  status groups come in the order the store chooses, so the answer holds the set of
  them.
\<close>

record report_response =
  r_total_shipments :: nat
  r_total_revenue :: rat
  r_average_value :: rat
  r_status_distribution :: "(string \<times> nat \<times> rat option) set"
  r_monthly_trend :: "(nat \<times> nat \<times> rat option) list"

definition date_range :: "nat option \<Rightarrow> nat option \<Rightarrow> nat \<Rightarrow> bool" where
  "date_range start_date end_date d =
     ((case start_date of None \<Rightarrow> True | Some a \<Rightarrow> a \<le> d)
      \<and> (case end_date of None \<Rightarrow> True | Some b \<Rightarrow> d \<le> b))"

definition ShipmentReportView_get ::
  "bool \<Rightarrow> (nat \<Rightarrow> nat) \<Rightarrow> user \<Rightarrow> nat option \<Rightarrow> nat option \<Rightarrow> store
     \<Rightarrow> exn + report_response" where
  "ShipmentReportView_get debug month request_user start_date end_date db =
     (let queryset0 = (if user_type request_user \<in> set [''admin'', ''staff'']
                       then shipments db
                       else filter (\<lambda>s. owner s = uid request_user) (shipments db));
          queryset = filter (\<lambda>s. date_range start_date end_date (created_on s)) queryset0;
          has_params = (\<not> (user_type request_user \<in> set [''admin'', ''staff''])
                        \<or> start_date \<noteq> None \<or> end_date \<noteq> None);
          total = length queryset;
          total_revenue = or_0 (Sum_agg (map total_cost queryset));
          status_distribution =
            set (annotate status total_cost queryset (remdups (map status queryset)));
          monthly_data = strftime_months debug has_params month created_on total_cost queryset
      in case (if total > 0 then true_div total_revenue total else Inr 0) of
           Inl e \<Rightarrow> Inl e
         | Inr average \<Rightarrow>
             (case monthly_data of
                Inl e \<Rightarrow> Inl e
              | Inr monthly_trend \<Rightarrow>
                  Inr \<lparr>r_total_shipments = total, r_total_revenue = total_revenue,
                       r_average_value = average,
                       r_status_distribution = status_distribution,
                       r_monthly_trend = monthly_trend\<rparr>))"

text \<open>
  \<open>FinancialReportView.get\<close> (\<open>api/views.py\<close>):
  \<^verbatim>\<open>
        payments = Payment.objects.filter(status='completed')
        if start_date:
            payments = payments.filter(created_at__date__gte=start_date)
        if end_date:
            payments = payments.filter(created_at__date__lte=end_date)
        total_revenue = payments.aggregate(Sum('amount'))['amount__sum'] or 0
        payment_methods = payments.values('payment_method').annotate(
            count=Count('id'), total=Sum('amount'))
        monthly_revenue = payments.extra(
            {'month': "strftime('%Y-%m', created_at)"}
        ).values('month').annotate(total=Sum('amount')).order_by('month')
        return Response({
            'total_revenue': total_revenue,
            'payment_methods': list(payment_methods),
            'monthly_revenue': list(monthly_revenue),
            'average_payment':
                total_revenue / payments.count() if payments.count() > 0 else 0})
  \<close>
  The queryset always filters on the value \<open>'completed'\<close>, and the monthly revenue
  is evaluated before the average.
\<close>

record financial_response =
  f_total_revenue :: rat
  f_payment_methods :: "(string \<times> nat \<times> rat option) set"
  f_monthly_revenue :: "(nat \<times> rat option) list"
  f_average_payment :: rat

definition FinancialReportView_get ::
  "bool \<Rightarrow> (nat \<Rightarrow> nat) \<Rightarrow> nat option \<Rightarrow> nat option \<Rightarrow> store
     \<Rightarrow> exn + financial_response" where
  "FinancialReportView_get debug month start_date end_date db =
     (let payments0 = filter (\<lambda>p. p_status p = ''completed'') (payments db);
          payments1 = filter (\<lambda>p. date_range start_date end_date (p_created_on p)) payments0;
          total_revenue = or_0 (Sum_agg (map amount payments1));
          payment_methods =
            set (annotate payment_method amount payments1
                   (remdups (map payment_method payments1)));
          monthly_revenue = strftime_months debug True month p_created_on amount payments1
      in case monthly_revenue of
           Inl e \<Rightarrow> Inl e
         | Inr months \<Rightarrow>
             (case (if length payments1 > 0 then true_div total_revenue (length payments1)
                    else Inr 0) of
                Inl e \<Rightarrow> Inl e
              | Inr average \<Rightarrow>
                  Inr \<lparr>f_total_revenue = total_revenue,
                       f_payment_methods = payment_methods,
                       f_monthly_revenue = map (\<lambda>(m, n, t). (m, t)) months,
                       f_average_payment = average\<rparr>))"

subsection \<open>Python floats\<close>

text \<open>
  A \<open>float\<close> is an IEEE 754 binary64 value: a finite double (given by the rational
  number it denotes), an infinity, or not-a-number. The two zeros are one value: they
  compare equal, and nothing below divides. Every operation rounds the exact result
  to the nearest double, ties to even; a result of magnitude \<open>2^1024\<close> or more after
  rounding is an infinity.
\<close>

datatype pyfloat = Finite rat | PosInf | NegInf | NaN

text \<open>
  For \<open>a > 0\<close>, \<open>binade a\<close> is the exponent \<open>e\<close> with \<open>2^e \<le> a < 2^(e+1)\<close>, found
  from the bit lengths of numerator and denominator.
\<close>

definition binade :: "rat \<Rightarrow> int" where
  "binade a =
     (let (p, q) = quotient_of a; d = bitlen p - bitlen q
      in if 2 powi d \<le> a then d else d - 1)"

text \<open>
  For \<open>a > 0\<close>, \<open>nearest a\<close> is the multiple of the spacing of doubles around
  \<open>a\<close> that is nearest to \<open>a\<close>, ties to the even multiple. The spacing is
  \<open>2^(e - 52)\<close> in the binade \<open>e\<close>, and \<open>2^(-1074)\<close> below \<open>2^(-1022)\<close>.
\<close>

definition nearest :: "rat \<Rightarrow> rat" where
  "nearest a =
     (let e = max (binade a) (- 1022); ulp = 2 powi (e - 52)
      in of_int (round_half_even (a / ulp)) * ulp)"

definition round64 :: "rat \<Rightarrow> pyfloat" where
  "round64 x =
     (if x = 0 then Finite 0
      else
        (let m = nearest \<bar>x\<bar>
         in if 2 powi 1024 \<le> m then (if 0 < x then PosInf else NegInf)
            else Finite (if 0 < x then m else - m)))"

text \<open>A float literal of the source denotes the double nearest to its decimal value.\<close>

definition lit :: "rat \<Rightarrow> pyfloat" where
  "lit r = round64 r"

fun fadd :: "pyfloat \<Rightarrow> pyfloat \<Rightarrow> pyfloat" where
  "fadd (Finite a) (Finite b) = round64 (a + b)"
| "fadd NaN y = NaN"
| "fadd x NaN = NaN"
| "fadd PosInf NegInf = NaN"
| "fadd NegInf PosInf = NaN"
| "fadd PosInf y = PosInf"
| "fadd x PosInf = PosInf"
| "fadd NegInf y = NegInf"
| "fadd x NegInf = NegInf"

definition inf_times :: "bool \<Rightarrow> rat \<Rightarrow> pyfloat" where
  "inf_times positive a =
     (if a = 0 then NaN else if (0 < a) = positive then PosInf else NegInf)"

fun fmul :: "pyfloat \<Rightarrow> pyfloat \<Rightarrow> pyfloat" where
  "fmul (Finite a) (Finite b) = round64 (a * b)"
| "fmul NaN y = NaN"
| "fmul x NaN = NaN"
| "fmul PosInf (Finite b) = inf_times True b"
| "fmul NegInf (Finite b) = inf_times False b"
| "fmul (Finite a) PosInf = inf_times True a"
| "fmul (Finite a) NegInf = inf_times False a"
| "fmul PosInf PosInf = PosInf"
| "fmul NegInf NegInf = PosInf"
| "fmul PosInf NegInf = NegInf"
| "fmul NegInf PosInf = NegInf"

text \<open>The comparisons \<open>x <= y\<close> and \<open>x > 0\<close>: false as soon as a NaN takes part.\<close>

fun fle :: "pyfloat \<Rightarrow> pyfloat \<Rightarrow> bool" where
  "fle NaN y = False"
| "fle x NaN = False"
| "fle NegInf y = True"
| "fle x PosInf = True"
| "fle PosInf y = False"
| "fle x NegInf = False"
| "fle (Finite a) (Finite b) = (a \<le> b)"

fun fgt0 :: "pyfloat \<Rightarrow> bool" where
  "fgt0 (Finite a) = (0 < a)"
| "fgt0 PosInf = True"
| "fgt0 NegInf = False"
| "fgt0 NaN = False"

subsection \<open>The page reports\<close>

text \<open>
  The two page reports of \<open>reports/views.py\<close>, as their bodies run for a user who
  passes the staff gate (the module names \<open>user_passes_test\<close> in its decorators
  without importing it). They take the average from the store:
  \<^verbatim>\<open>
    def shipment_reports(request):
        ...
        shipments = Shipment.objects.all()
        if start_date: shipments = shipments.filter(created_at__date__gte=start_date)
        if end_date: shipments = shipments.filter(created_at__date__lte=end_date)
        if status: shipments = shipments.filter(status=status)
        if payment_status: shipments = shipments.filter(payment_status=payment_status)
        total_shipments = shipments.count()
        total_revenue = shipments.aggregate(Sum('total_cost'))['total_cost__sum'] or 0
        avg_shipment_value = shipments.aggregate(Avg('total_cost'))['total_cost__avg'] or 0
        shipments_by_date = shipments.extra(
            {'created_date': "date(created_at)"}
        ).values('created_date').annotate(
            count=Count('id'), revenue=Sum('total_cost')).order_by('created_date')
        dates = [item['created_date'].strftime('%Y-%m-%d') for item in shipments_by_date]
        counts = [item['count'] for item in shipments_by_date]
        revenues = [float(item['revenue']) for item in shipments_by_date]
        context = {...}
        return render(request, 'reports/shipment_reports.html', context)
  \<close>
  A text filter is \<open>None\<close> when the query parameter is absent or empty. The engine
  gives the value of \<open>date(created_at)\<close> back as text, and a \<open>str\<close> has no
  \<open>strftime\<close>: \<open>AttributeError\<close> at the first group. \<open>traverse\<close> is a list
  comprehension whose element expression may raise.
\<close>

fun traverse :: "('a \<Rightarrow> exn + 'b) \<Rightarrow> 'a list \<Rightarrow> exn + 'b list" where
  "traverse f [] = Inr []"
| "traverse f (x # xs) =
     (case f x of
        Inl e \<Rightarrow> Inl e
      | Inr y \<Rightarrow> (case traverse f xs of Inl e \<Rightarrow> Inl e | Inr ys \<Rightarrow> Inr (y # ys)))"

definition str_strftime :: "nat \<Rightarrow> exn + string" where
  "str_strftime created_date = Inl AttributeError"

definition float_of_Decimal :: "rat option \<Rightarrow> exn + pyfloat" where
  "float_of_Decimal x = (case x of None \<Rightarrow> Inl TypeError | Some v \<Rightarrow> Inr (round64 v))"

record shipment_report_context =
  sc_total_shipments :: nat
  sc_total_revenue :: rat
  sc_avg_shipment_value :: rat
  sc_dates :: "string list"
  sc_counts :: "nat list"
  sc_revenues :: "pyfloat list"
  sc_shipments :: "shipment list"

definition shipment_reports ::
  "nat option \<Rightarrow> nat option \<Rightarrow> string option \<Rightarrow> string option \<Rightarrow> store
     \<Rightarrow> exn + shipment_report_context" where
  "shipment_reports start_date end_date st payment_st db =
     (let shipments1 = filter (\<lambda>s. date_range start_date end_date (created_on s)) (shipments db);
          shipments2 = (case st of None \<Rightarrow> shipments1
                        | Some v \<Rightarrow> filter (\<lambda>s. status s = v) shipments1);
          shipments3 = (case payment_st of None \<Rightarrow> shipments2
                        | Some v \<Rightarrow> filter (\<lambda>s. payment_status s = v) shipments2);
          total_shipments = length shipments3;
          total_revenue = or_0 (Sum_agg (map total_cost shipments3));
          avg_shipment_value = or_0 (Avg_agg (map total_cost shipments3));
          shipments_by_date = annotate created_on total_cost shipments3
                                (sort (remdups (map created_on shipments3)))
      in case traverse (\<lambda>(d, n, r). str_strftime d) shipments_by_date of
           Inl e \<Rightarrow> Inl e
         | Inr dates \<Rightarrow>
             (case traverse (\<lambda>(d, n, r). float_of_Decimal r) shipments_by_date of
                Inl e \<Rightarrow> Inl e
              | Inr revenues \<Rightarrow>
                  Inr \<lparr>sc_total_shipments = total_shipments,
                       sc_total_revenue = total_revenue,
                       sc_avg_shipment_value = avg_shipment_value,
                       sc_dates = dates,
                       sc_counts = map (\<lambda>(d, n, r). n) shipments_by_date,
                       sc_revenues = revenues,
                       sc_shipments = take 100 shipments3\<rparr>))"

text \<open>
  \<^verbatim>\<open>
    def financial_reports(request):
        payments = Payment.objects.filter(status='completed')
        monthly_revenue = payments.extra(
            {'month': "date_trunc('month', created_at)"}
        ).values('month').annotate(total=Sum('amount')).order_by('month')
        payment_methods = payments.values('payment_method').annotate(
            count=Count('id'), total=Sum('amount')).order_by('-total')
        months = [item['month'].strftime('%Y-%m') for item in monthly_revenue]
        revenues = [float(item['total']) for item in monthly_revenue]
        context = {
            'monthly_revenue': monthly_revenue,
            'payment_methods': payment_methods,
            'months_json': json.dumps(months),
            'revenues_json': json.dumps(revenues),
            'total_revenue': payments.aggregate(Sum('amount'))['amount__sum'] or 0,
            'avg_payment': payments.aggregate(Avg('amount'))['amount__avg'] or 0,
        }
        return render(request, 'reports/financial_reports.html', context)
  \<close>
  The engine has no function \<open>date_trunc\<close>: it refuses the statement when the
  comprehension evaluates the queryset (\<open>OperationalError\<close>), whatever the rows.
\<close>

definition date_trunc_months :: "payment list \<Rightarrow> exn + (nat \<times> nat \<times> rat option) list" where
  "date_trunc_months rows = Inl OperationalError"

record financial_report_context =
  fc_months :: "string list"
  fc_revenues :: "pyfloat list"
  fc_total_revenue :: rat
  fc_avg_payment :: rat

definition financial_reports :: "store \<Rightarrow> exn + financial_report_context" where
  "financial_reports db =
     (let payments1 = filter (\<lambda>p. p_status p = ''completed'') (payments db);
          monthly_revenue = date_trunc_months payments1
      in case monthly_revenue of
           Inl e \<Rightarrow> Inl e
         | Inr groups \<Rightarrow>
             (case traverse (\<lambda>(m, n, t). str_strftime m) groups of
                Inl e \<Rightarrow> Inl e
              | Inr months \<Rightarrow>
                  (case traverse (\<lambda>(m, n, t). float_of_Decimal t) groups of
                     Inl e \<Rightarrow> Inl e
                   | Inr revenues \<Rightarrow>
                       Inr \<lparr>fc_months = months, fc_revenues = revenues,
                            fc_total_revenue = or_0 (Sum_agg (map amount payments1)),
                            fc_avg_payment = or_0 (Avg_agg (map amount payments1))\<rparr>)))"

subsection \<open>Request values\<close>

text \<open>
  A value of the request data: \<open>None\<close> (JSON \<open>null\<close>), a boolean, an integer, a
  float or a string. A form post holds strings only.

  \<open>float(v)\<close>: \<open>None\<close> raises \<open>TypeError\<close>; a boolean is 0 or 1; an integer
  is rounded to the nearest double and raises \<open>OverflowError\<close> when it is too large
  for one; a string is parsed by the interpreter, here the argument \<open>parse\<close>
  (\<open>None\<close> for a string that \<open>float\<close> refuses with \<open>ValueError\<close>).
\<close>

datatype pyval = PNone | PBool bool | PInt int | PFloat pyfloat | PStr string

fun py_float :: "(string \<Rightarrow> pyfloat option) \<Rightarrow> pyval \<Rightarrow> exn + pyfloat" where
  "py_float parse PNone = Inl TypeError"
| "py_float parse (PBool b) = Inr (Finite (if b then 1 else 0))"
| "py_float parse (PInt n) =
     (case round64 (of_int n) of
        Finite r \<Rightarrow> Inr (Finite r)
      | _ \<Rightarrow> Inl OverflowError)"
| "py_float parse (PFloat f) = Inr f"
| "py_float parse (PStr s) = (case parse s of None \<Rightarrow> Inl ValueError | Some f \<Rightarrow> Inr f)"

text \<open>
  \<open>a == b\<close>. Numbers (booleans among them) are compared by exact value whatever
  their type, a NaN differs from everything; otherwise the values are equal when they
  are the same string or both \<open>None\<close>.
\<close>

fun number_of :: "pyval \<Rightarrow> pyfloat option" where
  "number_of (PBool b) = Some (Finite (if b then 1 else 0))"
| "number_of (PInt n) = Some (Finite (of_int n))"
| "number_of (PFloat f) = Some f"
| "number_of v = None"

definition py_eq :: "pyval \<Rightarrow> pyval \<Rightarrow> bool" where
  "py_eq a b =
     (case (number_of a, number_of b) of
        (Some x, Some y) \<Rightarrow> x = y \<and> x \<noteq> NaN
      | (None, None) \<Rightarrow> a = b
      | _ \<Rightarrow> False)"

definition dict_get :: "(string \<rightharpoonup> pyval) \<Rightarrow> string \<Rightarrow> pyval \<Rightarrow> pyval" where
  "dict_get data k dflt = (case data k of None \<Rightarrow> dflt | Some v \<Rightarrow> v)"

subsection \<open>The rate calculator\<close>

text \<open>
  \<open>CalculateRateView.post\<close> (\<open>api/views.py\<close>):
  \<^verbatim>\<open>
    def post(self, request):
        try:
            data = request.data
            weight = float(data.get('weight', 0))
            length = float(data.get('length', 0))
            width = float(data.get('width', 0))
            height = float(data.get('height', 0))
            from_country = data.get('from_country', 'US')
            to_country = data.get('to_country', 'US')
            service_type = data.get('service_type', 'standard')
            declared_value = float(data.get('declared_value', 0))
            base_rate = 10.0  # Base rate
            weight_rate = weight * 2.0  # $2 per kg
            distance_multiplier = 1.0
            if from_country != to_country:
                distance_multiplier = 1.5  # International shipping
            service_multipliers = {
                'standard': 1.0, 'express': 1.5, 'overnight': 2.0, 'same_day': 2.5,
            }
            service_multiplier = service_multipliers.get(service_type, 1.0)
            total = (base_rate + weight_rate) * distance_multiplier * service_multiplier
            insurance = declared_value * 0.01 if declared_value > 0 else 0
            return Response({
                'success': True,
                'base_rate': base_rate, 'weight_rate': weight_rate,
                'distance_multiplier': distance_multiplier,
                'service_multiplier': service_multiplier,
                'insurance': insurance, 'total': total + insurance,
                'currency': 'USD',
                'estimated_days': '3-5 business days' if service_type == 'standard'
                                  else '1-2 business days'})
        except Exception as e:
            return Response({'success': False, 'error': str(e)},
                            status=status.HTTP_400_BAD_REQUEST)
  \<close>
  The request data is \<open>Inl e\<close> when reading it raises \<open>e\<close> (a body that does not
  parse or is not an object), otherwise the dictionary. The integer \<open>0\<close> of the
  insurance when nothing is declared is the float zero. The locals \<open>weight\<close> and
  \<open>length\<close> carry a prime, the keys of the answer the prefix \<open>resp_\<close>.
\<close>

record rate_response =
  resp_base_rate :: pyfloat
  resp_weight_rate :: pyfloat
  resp_distance_multiplier :: pyfloat
  resp_service_multiplier :: pyfloat
  resp_insurance :: pyfloat
  resp_total :: pyfloat
  resp_currency :: string
  resp_estimated_days :: string

datatype rate_result =
    Success rate_response
  | Failure exn nat

definition service_multipliers :: "(string \<times> pyfloat) list" where
  "service_multipliers =
     [(''standard'', lit 1), (''express'', lit (3 / 2)),
      (''overnight'', lit 2), (''same_day'', lit (5 / 2))]"

definition service_multipliers_get :: "pyval \<Rightarrow> pyfloat \<Rightarrow> pyfloat" where
  "service_multipliers_get k dflt =
     (case k of
        PStr s \<Rightarrow> (case map_of service_multipliers s of None \<Rightarrow> dflt | Some m \<Rightarrow> m)
      | _ \<Rightarrow> dflt)"

definition post_try :: "(string \<Rightarrow> pyfloat option) \<Rightarrow> (string \<rightharpoonup> pyval) \<Rightarrow> exn + rate_response"
  where
  "post_try parse data =
     (case py_float parse (dict_get data ''weight'' (PInt 0)) of
        Inl e \<Rightarrow> Inl e
      | Inr weight' \<Rightarrow>
     (case py_float parse (dict_get data ''length'' (PInt 0)) of
        Inl e \<Rightarrow> Inl e
      | Inr length' \<Rightarrow>
     (case py_float parse (dict_get data ''width'' (PInt 0)) of
        Inl e \<Rightarrow> Inl e
      | Inr width \<Rightarrow>
     (case py_float parse (dict_get data ''height'' (PInt 0)) of
        Inl e \<Rightarrow> Inl e
      | Inr height \<Rightarrow>
     (let from_country = dict_get data ''from_country'' (PStr ''US'');
          to_country = dict_get data ''to_country'' (PStr ''US'');
          service_type = dict_get data ''service_type'' (PStr ''standard'')
      in
     (case py_float parse (dict_get data ''declared_value'' (PInt 0)) of
        Inl e \<Rightarrow> Inl e
      | Inr declared_value \<Rightarrow>
     (let base_rate = lit 10;
          weight_rate = fmul weight' (lit 2);
          distance_multiplier =
            (if \<not> py_eq from_country to_country then lit (3 / 2) else lit 1);
          service_multiplier = service_multipliers_get service_type (lit 1);
          total = fmul (fmul (fadd base_rate weight_rate) distance_multiplier)
                    service_multiplier;
          insurance = (if fgt0 declared_value then fmul declared_value (lit (1 / 100))
                       else Finite 0)
      in Inr \<lparr>resp_base_rate = base_rate, resp_weight_rate = weight_rate,
              resp_distance_multiplier = distance_multiplier,
              resp_service_multiplier = service_multiplier,
              resp_insurance = insurance, resp_total = fadd total insurance,
              resp_currency = ''USD'',
              resp_estimated_days = (if py_eq service_type (PStr ''standard'')
                                     then ''3-5 business days''
                                     else ''1-2 business days'')\<rparr>)))))))"

definition post :: "(string \<Rightarrow> pyfloat option) \<Rightarrow> exn + (string \<rightharpoonup> pyval) \<Rightarrow> rate_result" where
  "post parse request_data =
     (case request_data of
        Inl e \<Rightarrow> Failure e 400
      | Inr data \<Rightarrow>
          (case post_try parse data of
             Inl e \<Rightarrow> Failure e 400
           | Inr response \<Rightarrow> Success response))"

subsection \<open>The rate policy in the words of the specification\<close>

text \<open>
  The specification gives the amount as
  \<open>(base_rate + weight * per_kg_rate) * distance_multiplier * service_multiplier + insurance\<close>
  with base rate 10.0 and 2.0 per kg, the distance multiplier 1.0 when origin and
  destination are equal and 1.5 otherwise, the service multiplier from a fixed table
  (standard 1.0, express 1.5, overnight 2.0, same_day 2.5, anything else 1.0), and the
  insurance 1% of the declared value when that is positive, else 0. The operations are
  those of floats.
\<close>

definition spec_distance_multiplier :: "string \<Rightarrow> string \<Rightarrow> pyfloat" where
  "spec_distance_multiplier origin destination =
     (if origin = destination then lit 1 else lit (3 / 2))"

definition spec_service_multiplier :: "string \<Rightarrow> pyfloat" where
  "spec_service_multiplier service_type =
     (if service_type = ''standard'' then lit 1
      else if service_type = ''express'' then lit (3 / 2)
      else if service_type = ''overnight'' then lit 2
      else if service_type = ''same_day'' then lit (5 / 2)
      else lit 1)"

definition spec_insurance :: "pyfloat \<Rightarrow> pyfloat" where
  "spec_insurance declared_value =
     (if fgt0 declared_value then fmul (lit (1 / 100)) declared_value else Finite 0)"

definition spec_amount :: "pyfloat \<Rightarrow> string \<Rightarrow> string \<Rightarrow> string \<Rightarrow> pyfloat \<Rightarrow> pyfloat" where
  "spec_amount w service_type origin destination declared_value =
     fadd (fmul (fmul (fadd (lit 10) (fmul w (lit 2)))
                   (spec_distance_multiplier origin destination))
             (spec_service_multiplier service_type))
       (spec_insurance declared_value)"

text \<open>
  The keys of the request that the calculator reads, and among them the three
  dimensions.
\<close>

definition rate_keys :: "string list" where
  "rate_keys = [''weight'', ''length'', ''width'', ''height'', ''from_country'',
                ''to_country'', ''service_type'', ''declared_value'']"

definition dimension_keys :: "string list" where
  "dimension_keys = [''length'', ''width'', ''height'']"

subsection \<open>Well-formed stores and runs of status requests\<close>

text \<open>
  What the schema guarantees of a stored table: every row has a primary key, the keys
  and the identifiers are unique, an identifier is never empty (\<open>save\<close> fills it),
  and a history row refers to a stored parent.
\<close>

definition wf_store :: "store \<Rightarrow> bool" where
  "wf_store db \<longleftrightarrow>
     distinct (map pk (shipments db)) \<and>
     distinct (map tracking_number (shipments db)) \<and>
     list_all (\<lambda>s. pk s \<noteq> None \<and> tracking_number s \<noteq> []) (shipments db) \<and>
     distinct (map c_pk (consignments db)) \<and>
     distinct (map consignment_number (consignments db)) \<and>
     list_all (\<lambda>c. c_pk c \<noteq> None \<and> consignment_number c \<noteq> []) (consignments db) \<and>
     list_all (\<lambda>h. Some (h_shipment h) \<in> set (map pk (shipments db)))
       (shipment_histories db)"

text \<open>
  A request to \<open>update_shipment_status\<close>: the visitor, the method, the form and the
  tracking number of the route. It is an accepted status change when the guards of the
  handler let it through to the two writes.
\<close>

type_synonym status_request = "user option \<times> string \<times> (string \<rightharpoonup> string) \<times> string"

definition accepted :: "store \<Rightarrow> status_request \<Rightarrow> bool" where
  "accepted db rq =
     (case rq of (request_user, method, POST, tracking) \<Rightarrow>
        request_user \<noteq> None \<and> method = ''POST'' \<and>
        (case find (\<lambda>s. tracking_number s = tracking) (shipments db) of
           None \<Rightarrow> False
         | Some shipment \<Rightarrow>
             (case POST ''status'' of
                None \<Rightarrow> False
              | Some ns \<Rightarrow> ns \<noteq> [] \<and> ns \<noteq> status shipment)))"

definition serve :: "nat \<Rightarrow> store \<Rightarrow> status_request \<Rightarrow> store" where
  "serve u db rq =
     (case rq of (request_user, method, POST, tracking) \<Rightarrow>
        snd (update_shipment_status u request_user method POST tracking db))"

fun run_updates :: "nat \<Rightarrow> store \<Rightarrow> status_request list \<Rightarrow> store" where
  "run_updates u db [] = db"
| "run_updates u db (rq # rqs) = run_updates u (serve u db rq) rqs"

fun changes_applied :: "nat \<Rightarrow> store \<Rightarrow> string \<Rightarrow> status_request list \<Rightarrow> nat" where
  "changes_applied u db tracking [] = 0"
| "changes_applied u db tracking (rq # rqs) =
     (if accepted db rq \<and> snd (snd (snd rq)) = tracking then 1 else 0)
     + changes_applied u (serve u db rq) tracking rqs"

definition history_count :: "store \<Rightarrow> string \<Rightarrow> nat" where
  "history_count db tracking =
     (case find (\<lambda>s. tracking_number s = tracking) (shipments db) of
        None \<Rightarrow> 0
      | Some shipment \<Rightarrow> length (history_of db shipment))"

text \<open>
  A consignment with its total recomputed, as \<open>Consignment.save\<close> leaves the object,
  and the row of it, as \<open>Consignment.save\<close> stores it.
\<close>

definition recomputed :: "consignment \<Rightarrow> consignment" where
  "recomputed c =
     c\<lparr>total_charges :=
         Decimal_add
           (Decimal_add
             (Decimal_add (Decimal_add (freight_charges c) (handling_charges c))
               (insurance_charges c))
             (customs_charges c))
           (other_charges c)\<rparr>"


subsection \<open>Sample data\<close>

text \<open>Concrete inputs on which the statements below are evaluated.\<close>

definition empty_store :: store where
  "empty_store = \<lparr>shipments = [], shipment_histories = [], consignments = [],
                   consignment_histories = [], payments = []\<rparr>"

definition clerk :: user where
  "clerk = \<lparr>uid = 1, email = ''clerk@example.com'', user_type = ''staff''\<rparr>"

definition customer :: user where
  "customer = \<lparr>uid = 2, email = ''customer@example.com'', user_type = ''customer''\<rparr>"

definition parcel :: shipment where
  "parcel = \<lparr>pk = None, tracking_number = [], owner = 0, status = ''pending'',
              payment_status = ''pending'', shipping_method = ''standard'',
              sender_country = ''US'', receiver_country = ''CA'', weight = 5,
              shipping_cost = 0, insurance_cost = 1, tax = 2, total_cost = 0,
              created_on = 100, created_by = None\<rparr>"

definition flat_tariff :: "rat \<Rightarrow> string \<Rightarrow> string \<Rightarrow> string \<Rightarrow> rat" where
  "flat_tariff w method origin destination = 10"

definition cargo :: consignment where
  "cargo = \<lparr>c_pk = None, consignment_number = [], c_owner = 2, c_status = ''draft'',
             freight_charges = 100, handling_charges = 20, insurance_charges = 5,
             customs_charges = 30, other_charges = 1 / 2, total_charges = 999,
             approved_by = None, approved_at = None\<rparr>"

definition invoice_payment :: payment where
  "invoice_payment = \<lparr>p_pk = None, payment_id = [], p_owner = Some 2,
                       p_status = ''pending'', payment_method = ''cash'', amount = 10,
                       p_created_on = 100\<rparr>"

definition no_text :: "string \<Rightarrow> pyfloat option" where
  "no_text s = None"

text \<open>
  The store after the clerk has created the sample shipment with the random value 42
  and the flat tariff, and requests on it.
\<close>

definition booked_parcel :: shipment where
  "booked_parcel = parcel\<lparr>pk := Some 1, tracking_number := ''SH42'', owner := 1,
                          shipping_cost := 10, total_cost := 13, created_by := Some 1\<rparr>"

definition booked_store :: store where
  "booked_store =
     \<lparr>shipments = [booked_parcel],
      shipment_histories =
        [\<lparr>h_shipment = 1, h_status = ''pending'', h_location = [],
          h_description = ''Shipment created successfully'', h_created_by = None\<rparr>],
      consignments = [], consignment_histories = [], payments = []\<rparr>"

definition transit_request :: status_request where
  "transit_request =
     (Some clerk, ''POST'', [''status'' \<mapsto> ''in_transit'', ''location'' \<mapsto> ''Paris''], ''SH42'')"

definition delivered_request :: status_request where
  "delivered_request = (Some clerk, ''POST'', [''status'' \<mapsto> ''delivered''], ''SH42'')"

definition null_location_body :: "string \<rightharpoonup> string option" where
  "null_location_body =
     [''tracking_number'' \<mapsto> Some ''SH42'', ''status'' \<mapsto> Some ''delivered'',
      ''location'' \<mapsto> None]"

text \<open>The same store with the sample consignment stored, and webhook bodies.\<close>

definition stored_cargo :: consignment where
  "stored_cargo = cargo\<lparr>c_pk := Some 1, consignment_number := ''CN42'',
                        total_charges := 311 / 2\<rparr>"

definition depot_store :: store where
  "depot_store = booked_store\<lparr>consignments := [stored_cargo]\<rparr>"

definition delivered_body :: "string \<rightharpoonup> string option" where
  "delivered_body = [''tracking_number'' \<mapsto> Some ''SH42'', ''status'' \<mapsto> Some ''delivered'']"

definition on_hold_body :: "string \<rightharpoonup> string option" where
  "on_hold_body = [''tracking_number'' \<mapsto> Some ''CN42'', ''status'' \<mapsto> Some ''on_hold'']"

definition unknown_body :: "string \<rightharpoonup> string option" where
  "unknown_body = [''tracking_number'' \<mapsto> Some ''XX1'', ''status'' \<mapsto> Some ''delivered'']"






text \<open>A calendar for the examples: months of thirty days.\<close>

definition thirty_days :: "nat \<Rightarrow> nat" where
  "thirty_days d = d div 30"

section \<open>Properties\<close>

subsection \<open>Rounding decimals\<close>

lemma round_half_even_bounds:
  "of_int (round_half_even z) \<le> z + 1 / 2" "z - 1 / 2 \<le> of_int (round_half_even z)"
  "\<lfloor>z\<rfloor> \<le> round_half_even z" "round_half_even z \<le> \<lfloor>z\<rfloor> + 1"
  unfolding round_half_even_def Let_def by (auto simp: not_less) linarith+

lemma round_half_even_of_int [simp]: "round_half_even (of_int k) = k"
  by (simp add: round_half_even_def)

lemma round_half_even_mono:
  assumes "z1 \<le> z2"
  shows "round_half_even z1 \<le> round_half_even z2"
proof (cases "\<lfloor>z1\<rfloor> = \<lfloor>z2\<rfloor>")
  case True
  with assms show ?thesis
    by (auto simp: round_half_even_def Let_def)
next
  case False
  with assms have "\<lfloor>z1\<rfloor> + 1 \<le> \<lfloor>z2\<rfloor>"
    using floor_mono [OF assms] by linarith
  with round_half_even_bounds(4) [of z1] round_half_even_bounds(3) [of z2]
  show ?thesis by linarith
qed

text \<open>
  A number with \<open>n\<close> decimal places and fewer than \<open>prec - n\<close> digits before the
  point has at most \<open>prec\<close> digits: rounding it to \<open>prec\<close> digits, or to \<open>n\<close>
  places, gives the number itself.
\<close>

lemma decade_lower:
  assumes "0 < a"
  shows "10 powi (decade a) \<le> a"
proof -
  obtain p q where pq: "quotient_of a = (p, q)" by (cases "quotient_of a")
  then have q: "0 < q" and a: "a = of_int p / of_int q"
    using quotient_of_denom_pos [OF pq] quotient_of_div [OF pq] by auto
  with assms have p: "0 < p"
    by (simp add: zero_less_divide_iff)
  define lp where "lp = floorlog 10 (nat p)"
  define lq where "lq = floorlog 10 (nat q)"
  define d where "d = int lp - int lq"
  have bp: "10 ^ (lp - 1) \<le> nat p"
    using floorlog_bounds [of "nat p" 10] p by (simp add: lp_def)
  have bq: "nat q < 10 ^ lq"
    using floorlog_bounds [of "nat q" 10] q by (simp add: lq_def)
  have lp1: "1 \<le> lp"
    using p by (simp add: lp_def floorlog_def)
  have P1: "(10::rat) ^ (lp - 1) \<le> of_int p"
  proof -
    have "(of_nat (10 ^ (lp - 1)) :: rat) \<le> of_nat (nat p)"
      using bp by (simp only: of_nat_le_iff)
    then show ?thesis using p by simp
  qed
  have Q2: "of_int q < (10::rat) ^ lq"
  proof -
    have "(of_nat (nat q) :: rat) < of_nat (10 ^ lq)"
      using bq by (simp only: of_nat_less_iff)
    then show ?thesis using q by simp
  qed
  have qpos: "(0::rat) < of_int q" using q by simp
  have lo: "10 powi (d - 1) < a"
  proof -
    have "(10::rat) powi (d - 1) * of_int q < 10 powi (d - 1) * 10 ^ lq"
      using Q2 by (simp add: mult_strict_left_mono)
    also have "\<dots> = 10 powi (d - 1) * 10 powi (int lq)"
      by (simp only: power_int_of_nat)
    also have "\<dots> = 10 powi (d - 1 + int lq)"
      by (rule power_int_add [symmetric]) simp
    also have "\<dots> = 10 powi (int lp - 1)"
      by (simp add: d_def)
    also have "\<dots> = 10 ^ (lp - 1)"
      using lp1 by (simp add: power_int_def nat_diff_distrib)
    also have "\<dots> \<le> of_int p" by (rule P1)
    finally show ?thesis using qpos by (simp add: a pos_less_divide_eq)
  qed
  have b: "decade a = (if 10 powi d \<le> a then d else d - 1)"
    by (simp add: decade_def pq d_def lp_def lq_def Let_def)
  show ?thesis
    using lo by (auto simp: b)
qed

lemma decade_less:
  assumes "0 < a" and "a < 10 powi k"
  shows "decade a < k"
proof (rule ccontr)
  assume "\<not> decade a < k"
  then have "k \<le> decade a" by simp
  then have "(10::rat) powi k \<le> 10 powi (decade a)"
    by (rule power_int_increasing) simp
  also have "\<dots> \<le> a" using assms(1) by (rule decade_lower)
  finally show False using assms(2) by simp
qed

lemma decimal_placesE:
  assumes "decimal_places n x"
  obtains k where "x * 10 ^ n = of_int k"
  using assms by (auto simp: decimal_places_def)

lemma decimal_round_exact:
  assumes tp: "decimal_places n x" and lt: "\<bar>x\<bar> < 10 ^ (prec - n)" and p2: "n \<le> prec"
  shows "decimal_round prec x = x"
proof (cases "x = 0")
  case True
  then show ?thesis by (simp add: decimal_round_def)
next
  case False
  then have pos: "0 < \<bar>x\<bar>" by simp
  define e where "e = decade \<bar>x\<bar>"
  have "\<bar>x\<bar> < 10 powi (int prec - int n)"
    using lt p2 by (simp add: power_int_def nat_diff_distrib)
  then have "e < int prec - int n"
    unfolding e_def using pos by (intro decade_less)
  then have "0 \<le> int prec - int n - 1 - e" by simp
  then obtain j :: nat where "int prec - int n - 1 - e = int j"
    using nonneg_int_cases by blast
  then have j: "e + 1 - int prec = - int (j + n)" by simp
  obtain k where k: "x * 10 ^ n = of_int k"
    using tp by (rule decimal_placesE)
  have "\<bar>x\<bar> * 10 ^ n = \<bar>x * 10 ^ n\<bar>" by (simp add: abs_mult)
  then have ak: "\<bar>x\<bar> * 10 ^ n = of_int \<bar>k\<bar>"
    unfolding k by simp
  have unit: "(10::rat) powi (e + 1 - int prec) = 1 / 10 ^ (j + n)"
    unfolding j by (simp only: power_int_minus power_int_of_nat) (simp add: field_simps)
  have "\<bar>x\<bar> / 10 powi (e + 1 - int prec) = (\<bar>x\<bar> * 10 ^ n) * 10 ^ j"
    unfolding unit by (simp add: power_add)
  also have "\<dots> = of_int (\<bar>k\<bar> * 10 ^ j)"
    unfolding ak by simp
  finally have q: "\<bar>x\<bar> / 10 powi (e + 1 - int prec) = of_int (\<bar>k\<bar> * 10 ^ j)" .
  have "of_int (round_half_even (\<bar>x\<bar> / 10 powi (e + 1 - int prec))) * 10 powi (e + 1 - int prec)
          = \<bar>x\<bar>"
    unfolding q round_half_even_of_int unfolding q [symmetric]
    by (simp add: power_int_def)
  then show ?thesis
    using False by (auto simp: decimal_round_def Let_def e_def)
qed

lemma quantize_exact:
  assumes "decimal_places n x"
  shows "quantize n x = x"
proof -
  obtain k where k: "x * 10 ^ n = of_int k"
    using assms by (rule decimal_placesE)
  have "quantize n x = of_int k / 10 ^ n"
    unfolding quantize_def k by (simp only: round_half_even_of_int)
  also have "\<dots> = x"
    unfolding k [symmetric] by simp
  finally show ?thesis .
qed

lemma decimal_places_add:
  assumes "decimal_places n a" and "decimal_places n b"
  shows "decimal_places n (a + b)"
proof -
  from assms obtain k l where "a * 10 ^ n = of_int k" "b * 10 ^ n = of_int l"
    by (auto elim!: decimal_placesE)
  then have "(a + b) * 10 ^ n = of_int (k + l)"
    by (simp add: algebra_simps)
  then show ?thesis
    unfolding decimal_places_def by (simp only: floor_of_int)
qed


lemma decimal_round_0 [simp]: "decimal_round prec 0 = 0"
  by (simp add: decimal_round_def)

text \<open>A value that the field validates comes back from the column as it is.\<close>

lemma DecimalField_stored_exact:
  assumes "decimal_places 2 x" and "\<bar>x\<bar> < 10 ^ 13"
  shows "DecimalField_stored x = x"
proof -
  have "decimal_round 15 x = x"
    using assms by (intro decimal_round_exact [of 2]) simp_all
  then show ?thesis
    using assms(1) by (simp add: DecimalField_stored_def quantize_exact)
qed

lemma Decimal_add_exact:
  assumes "decimal_places n a" and "decimal_places n b" and "\<bar>a + b\<bar> < 10 ^ (28 - n)"
    and "n \<le> 28"
  shows "Decimal_add a b = a + b"
  unfolding Decimal_add_def
  using decimal_places_add [OF assms(1,2)] assms(3,4)
  by (intro decimal_round_exact [of n]) simp_all

subsection \<open>Saving a row\<close>

lemma model_save_result:
  assumes "model_save key set_key ident r rows = Inr (r', rows')"
    and "\<And>i x. ident (set_key i x) = ident x"
  shows "ident r' = ident r" and "r' \<in> set rows'"
  using assms
  by (auto simp: model_save_def Let_def list_ex_iff split: if_splits option.splits)

lemma find_in_set: "find P xs = Some x \<Longrightarrow> x \<in> set xs \<and> P x"
  by (auto simp: find_Some_iff)

lemma find_replace:
  assumes "\<And>x. x \<in> set xs \<Longrightarrow> P (f x) = P x"
  shows "find P (map f xs) = map_option f (find P xs)"
  using assms by (induction xs) auto

lemma find_append:
  "find P (xs @ ys) = (case find P xs of None \<Rightarrow> find P ys | Some x \<Rightarrow> Some x)"
  by (induction xs) auto

lemma fold_max_bound:
  "(m::nat) \<le> fold (\<lambda>k m. case k of None \<Rightarrow> m | Some i \<Rightarrow> max i m) ks m \<and>
   (Some i \<in> set ks \<longrightarrow> i \<le> fold (\<lambda>k m. case k of None \<Rightarrow> m | Some i \<Rightarrow> max i m) ks m)"
proof (induction ks arbitrary: m)
  case Nil
  show ?case by simp
next
  case (Cons k ks)
  show ?case
    using Cons.IH [of "case k of None \<Rightarrow> m | Some i \<Rightarrow> max i m"]
    by (auto split: option.splits)
qed

lemma next_pk_fresh: "Some (next_pk ks) \<notin> set ks"
  using fold_max_bound [of 0 ks "next_pk ks"] by (auto simp: next_pk_def)



lemma Shipment_save_tracking:
  assumes "Shipment_save u s db = Inr (s', db')"
  shows "tracking_number s' =
           (if tracking_number s = [] then generate_tracking_number u else tracking_number s)"
    and "s' \<in> set (shipments db')"
  using assms
  by (auto simp: Shipment_save_def Let_def split: sum.splits if_splits
      dest: model_save_result [where ident = tracking_number
                and set_key = "\<lambda>i r. r\<lparr>pk := Some i\<rparr>", simplified])

lemma Consignment_row_fields [simp]:
  "consignment_number (Consignment_row c) = consignment_number c"
  "c_pk (Consignment_row c) = c_pk c"
  "c_owner (Consignment_row c) = c_owner c"
  "c_status (Consignment_row c) = c_status c"
  "approved_by (Consignment_row c) = approved_by c"
  "approved_at (Consignment_row c) = approved_at c"
  "Consignment_row (c\<lparr>c_pk := k\<rparr>) = (Consignment_row c)\<lparr>c_pk := k\<rparr>"
  by (simp_all add: Consignment_row_def)

lemma Consignment_save_fields:
  assumes "Consignment_save u c db = Inr (c', db')"
  shows "consignment_number c' =
           (if consignment_number c = [] then generate_consignment_number u
            else consignment_number c)"
    and "Consignment_row c' \<in> set (consignments db')"
    and "total_charges c' = total_charges (recomputed c)"
    and "freight_charges c' = freight_charges c"
    and "handling_charges c' = handling_charges c"
    and "insurance_charges c' = insurance_charges c"
    and "customs_charges c' = customs_charges c"
    and "other_charges c' = other_charges c"
    and "c_status c' = c_status c"
    and "approved_by c' = approved_by c"
    and "approved_at c' = approved_at c"
  using assms
  by (auto simp: Consignment_save_def model_save_def recomputed_def Let_def list_ex_iff
      split: sum.splits if_splits option.splits)



lemma Payment_save_id:
  assumes "Payment_save u p db = Inr (p', db')"
  shows "payment_id p' = (if payment_id p = [] then generate_payment_id u else payment_id p)"
    and "p' \<in> set (payments db')"
  using assms
  by (auto simp: Payment_save_def Let_def split: sum.splits if_splits
      dest: model_save_result [where ident = payment_id
                and set_key = "\<lambda>i r. r\<lparr>p_pk := Some i\<rparr>", simplified])

subsection \<open>Rounding to the nearest double is monotone\<close>

lemma binade_bounds:
  assumes "0 < a"
  shows "2 powi (binade a) \<le> a" and "a < 2 powi (binade a + 1)"
proof -
  obtain p q where pq: "quotient_of a = (p, q)" by (cases "quotient_of a")
  then have q: "0 < q" and a: "a = of_int p / of_int q"
    using quotient_of_denom_pos [OF pq] quotient_of_div [OF pq] by auto
  with assms have p: "0 < p"
    by (simp add: zero_less_divide_iff)
  define d where "d = bitlen p - bitlen q"
  have bp: "2 ^ nat (bitlen p - 1) \<le> p" "p < 2 ^ nat (bitlen p)"
    using bitlen_bounds [OF p] by auto
  have bq: "2 ^ nat (bitlen q - 1) \<le> q" "q < 2 ^ nat (bitlen q)"
    using bitlen_bounds [OF q] by auto
  have lp: "1 \<le> bitlen p" and lq: "1 \<le> bitlen q"
    using p q by (auto simp: bitlen_alt_def)
  have pw: "(2::rat) powi k = of_int (2 ^ nat k)" if "0 \<le> k" for k
    using that by (simp add: power_int_def)
  have P1: "(2::rat) powi (bitlen p - 1) \<le> of_int p"
    using bp(1) lp by (simp only: pw of_int_le_iff diff_ge_0_iff_ge)
  have P2: "of_int p < (2::rat) powi (bitlen p)"
    using bp(2) by (simp only: pw bitlen_nonneg of_int_less_iff)
  have Q1: "(2::rat) powi (bitlen q - 1) \<le> of_int q"
    using bq(1) lq by (simp only: pw of_int_le_iff diff_ge_0_iff_ge)
  have Q2: "of_int q < (2::rat) powi (bitlen q)"
    using bq(2) by (simp only: pw bitlen_nonneg of_int_less_iff)
  have qpos: "(0::rat) < of_int q" using q by simp
  have up: "a < 2 powi (d + 1)"
  proof -
    have "of_int p < (2::rat) powi (d + 1) * 2 powi (bitlen q - 1)"
      using P2 by (simp add: d_def flip: power_int_add)
    also have "\<dots> \<le> 2 powi (d + 1) * of_int q"
      using Q1 by (simp add: mult_left_mono)
    finally show ?thesis using qpos by (simp add: a pos_divide_less_eq)
  qed
  have lo: "2 powi (d - 1) < a"
  proof -
    have "(2::rat) powi (d - 1) * of_int q < 2 powi (d - 1) * 2 powi (bitlen q)"
      using Q2 by (simp add: mult_strict_left_mono)
    also have "\<dots> = 2 powi (bitlen p - 1)"
      by (simp add: d_def flip: power_int_add)
    also have "\<dots> \<le> of_int p" by (rule P1)
    finally show ?thesis using qpos by (simp add: a pos_less_divide_eq)
  qed
  have b: "binade a = (if 2 powi d \<le> a then d else d - 1)"
    by (simp add: binade_def pq d_def Let_def)
  show "2 powi (binade a) \<le> a"
    using lo by (auto simp: b)
  show "a < 2 powi (binade a + 1)"
    using up by (auto simp: b not_le)
qed


lemma powi2_pos [simp]: "(0::rat) < 2 powi k"
  by (simp add: power_int_def)

lemma powi2_mono: "j \<le> k \<Longrightarrow> (2::rat) powi j \<le> 2 powi k"
  by (rule power_int_increasing) simp_all

lemma binade_mono:
  assumes "0 < a" "a \<le> b"
  shows "binade a \<le> binade b"
proof (rule ccontr)
  assume "\<not> binade a \<le> binade b"
  then have "binade b + 1 \<le> binade a" by simp
  then have "(2::rat) powi (binade b + 1) \<le> 2 powi (binade a)" by (rule powi2_mono)
  also have "\<dots> \<le> a" using assms(1) by (rule binade_bounds)
  also have "\<dots> \<le> b" by fact
  also have "\<dots> < 2 powi (binade b + 1)" using assms by (intro binade_bounds) simp
  finally show False by simp
qed

lemma nearest_nonneg: "0 < a \<Longrightarrow> 0 \<le> nearest a"
proof -
  assume a: "0 < a"
  have "0 \<le> a / 2 powi (max (binade a) (- 1022) - 52)"
    using a by simp
  then have "round_half_even 0 \<le> round_half_even (a / 2 powi (max (binade a) (- 1022) - 52))"
    by (rule round_half_even_mono)
  then show ?thesis
    using round_half_even_of_int [of 0] by (simp add: nearest_def Let_def)
qed

lemma nearest_mono:
  assumes a: "0 < a" and ab: "a \<le> b"
  shows "nearest a \<le> nearest b"
proof -
  define ea where "ea = max (binade a) (- 1022)"
  define eb where "eb = max (binade b) (- 1022)"
  have b: "0 < b" using a ab by simp
  have na: "nearest a = of_int (round_half_even (a / 2 powi (ea - 52))) * 2 powi (ea - 52)"
    by (simp add: nearest_def ea_def Let_def)
  have nb: "nearest b = of_int (round_half_even (b / 2 powi (eb - 52))) * 2 powi (eb - 52)"
    by (simp add: nearest_def eb_def Let_def)
  have le: "ea \<le> eb"
    using binade_mono [OF a ab] by (simp add: ea_def eb_def)
  show ?thesis
  proof (cases "ea = eb")
    case True
    have "a / 2 powi (eb - 52) \<le> b / 2 powi (eb - 52)"
      using ab by (simp add: divide_right_mono)
    then have "round_half_even (a / 2 powi (eb - 52)) \<le> round_half_even (b / 2 powi (eb - 52))"
      by (rule round_half_even_mono)
    then show ?thesis
      by (simp add: na nb True mult_right_mono)
  next
    case False
    with le have lt: "ea + 1 \<le> eb" by simp
    then have ebb: "eb = binade b" by (auto simp: eb_def ea_def max_def split: if_splits)
    have "a < 2 powi (binade a + 1)" using a by (rule binade_bounds)
    also have "\<dots> \<le> 2 powi (ea + 1)" by (rule powi2_mono) (simp add: ea_def)
    finally have "a / 2 powi (ea - 52) \<le> 2 powi (ea + 1) / 2 powi (ea - 52)"
      by (simp add: divide_right_mono)
    also have "\<dots> = of_int (2 ^ 53)"
      by (simp add: power_int_diff [symmetric] flip: power_int_diff)
    finally have "round_half_even (a / 2 powi (ea - 52)) \<le> round_half_even (of_int (2 ^ 53))"
      by (rule round_half_even_mono)
    then have "of_int (round_half_even (a / 2 powi (ea - 52))) \<le> (of_int (2 ^ 53) :: rat)"
      unfolding round_half_even_of_int of_int_le_iff .
    then have "nearest a \<le> of_int (2 ^ 53) * 2 powi (ea - 52)"
      unfolding na by (rule mult_right_mono) simp
    also have "\<dots> = 2 powi 53 * 2 powi (ea - 52)"
      by simp
    also have "\<dots> = 2 powi (ea + 1)"
      using power_int_add [of "2::rat" 53 "ea - 52"] by (simp add: add.commute)
    also have "\<dots> \<le> 2 powi eb" using lt by (rule powi2_mono)
    finally have A: "nearest a \<le> 2 powi eb" .
    have "2 powi eb \<le> b" unfolding ebb using b by (rule binade_bounds)
    then have "2 powi eb / 2 powi (eb - 52) \<le> b / 2 powi (eb - 52)"
      by (simp add: divide_right_mono)
    moreover have "(2::rat) powi eb / 2 powi (eb - 52) = of_int (2 ^ 52)"
      by (simp flip: power_int_diff)
    ultimately have "round_half_even (of_int (2 ^ 52)) \<le> round_half_even (b / 2 powi (eb - 52))"
      by (intro round_half_even_mono) simp
    then have "(of_int (2 ^ 52) :: rat) \<le> of_int (round_half_even (b / 2 powi (eb - 52)))"
      unfolding round_half_even_of_int of_int_le_iff .
    then have "of_int (2 ^ 52) * 2 powi (eb - 52) \<le> nearest b"
      unfolding nb by (rule mult_right_mono) simp
    moreover have "of_int (2 ^ 52) * 2 powi (eb - 52) = (2::rat) powi 52 * 2 powi (eb - 52)"
      by simp
    moreover have "(2::rat) powi 52 * 2 powi (eb - 52) = 2 powi eb"
      using power_int_add [of "2::rat" 52 "eb - 52"] by (simp add: add.commute)
    ultimately have B: "2 powi eb \<le> nearest b" by simp
    from A B show ?thesis by simp
  qed
qed

lemma round64_pos:
  "0 < x \<Longrightarrow> round64 x = (if 2 powi 1024 \<le> nearest x then PosInf else Finite (nearest x))"
  by (simp add: round64_def Let_def)

lemma round64_neg:
  "x < 0 \<Longrightarrow> round64 x = (if 2 powi 1024 \<le> nearest (- x) then NegInf else Finite (- nearest (- x)))"
  by (simp add: round64_def Let_def)

lemma round64_not_NaN [simp]: "round64 x \<noteq> NaN"
  by (simp add: round64_def Let_def)

lemma round64_mono:
  assumes "x \<le> y"
  shows "fle (round64 x) (round64 y)"
proof -
  consider "0 < x" | "x = 0" | "x < 0" by linarith
  then show ?thesis
  proof cases
    case 1
    with assms have y: "0 < y" by simp
    have "nearest x \<le> nearest y" using 1 assms by (rule nearest_mono)
    then show ?thesis
      by (auto simp: round64_pos [OF 1] round64_pos [OF y])
  next
    case 2
    show ?thesis
    proof (cases "y = 0")
      case True
      with 2 show ?thesis by (simp add: round64_def)
    next
      case False
      with 2 assms have y: "0 < y" by simp
      with nearest_nonneg [OF y] show ?thesis
        by (auto simp: round64_pos [OF y] 2 round64_def [of 0])
    qed
  next
    case 3
    consider "0 < y" | "y = 0" | "y < 0" by linarith
    then show ?thesis
    proof cases
      case 1
      with nearest_nonneg [of y] nearest_nonneg [of "- x"] 3 show ?thesis
        by (auto simp: round64_pos [OF 1] round64_neg [OF 3])
    next
      case 2
      with nearest_nonneg [of "- x"] 3 show ?thesis
        by (auto simp: round64_neg [OF 3] round64_def [of 0])
    next
      case y: 3
      have "nearest (- y) \<le> nearest (- x)"
        using y assms by (intro nearest_mono) simp_all
      then show ?thesis
        by (auto simp: round64_neg [OF 3] round64_neg [OF y])
    qed
  qed
qed

lemma fle_zero_iff: "fle (Finite 0) f \<longleftrightarrow> f = PosInf \<or> (\<exists>r. f = Finite r \<and> 0 \<le> r)"
  by (cases f) auto

lemma round64_nonneg: "0 \<le> x \<Longrightarrow> fle (Finite 0) (round64 x)"
  using round64_mono [of 0 x] by (simp add: round64_def [of 0])

lemma fle_refl: "f \<noteq> NaN \<Longrightarrow> fle f f"
  by (cases f) auto

lemma fmul_mono:
  assumes a: "fle (Finite 0) a" and ab: "fle a b" and c: "0 < c"
  shows "fle (fmul a (Finite c)) (fmul b (Finite c))"
proof (cases a)
  case (Finite r)
  with a have r: "0 \<le> r" by simp
  show ?thesis
  proof (cases b)
    case (Finite t)
    with ab \<open>a = Finite r\<close> have "r \<le> t" by simp
    then have "r * c \<le> t * c" using c by (simp add: mult_right_mono)
    then show ?thesis
      unfolding \<open>a = Finite r\<close> Finite fmul.simps by (rule round64_mono)
  next
    case PosInf
    then show ?thesis
      using c by (cases "round64 (r * c)") (simp_all add: \<open>a = Finite r\<close> inf_times_def)
  qed (use ab \<open>a = Finite r\<close> in simp_all)
next
  case PosInf
  with ab have "b = PosInf" by (cases b) simp_all
  with PosInf c show ?thesis by (simp add: inf_times_def)
qed (use a in simp_all)

lemma fmul_nonneg:
  assumes a: "fle (Finite 0) a" and c: "0 < c"
  shows "fle (Finite 0) (fmul a (Finite c))"
proof (cases a)
  case (Finite r)
  with a c have "0 \<le> r * c" by simp
  then show ?thesis unfolding Finite fmul.simps by (rule round64_nonneg)
next
  case PosInf
  with c show ?thesis by (simp add: inf_times_def)
qed (use a in simp_all)

lemma fadd_mono_right:
  assumes a: "fle (Finite 0) a" and ab: "fle a b"
  shows "fle (fadd (Finite c) a) (fadd (Finite c) b)"
proof (cases a)
  case (Finite r)
  show ?thesis
  proof (cases b)
    case (Finite t)
    with ab \<open>a = Finite r\<close> have "c + r \<le> c + t" by simp
    then show ?thesis
      unfolding \<open>a = Finite r\<close> Finite fadd.simps by (rule round64_mono)
  next
    case PosInf
    then show ?thesis
      by (cases "round64 (c + r)") (simp_all add: \<open>a = Finite r\<close>)
  qed (use ab \<open>a = Finite r\<close> in simp_all)
next
  case PosInf
  with ab have "b = PosInf" by (cases b) simp_all
  with PosInf show ?thesis by simp
qed (use a in simp_all)

lemma fadd_nonneg:
  assumes a: "fle (Finite 0) a" and b: "fle (Finite 0) b"
  shows "fle (Finite 0) (fadd a b)"
proof (cases a)
  case (Finite r)
  show ?thesis
  proof (cases b)
    case (Finite t)
    with a b \<open>a = Finite r\<close> have "0 \<le> r + t" by simp
    then show ?thesis unfolding \<open>a = Finite r\<close> Finite fadd.simps by (rule round64_nonneg)
  qed (use b \<open>a = Finite r\<close> in simp_all)
next
  case PosInf
  with b show ?thesis by (cases b) simp_all
qed (use a in simp_all)

lemma fadd_mono_left:
  assumes a: "fle (Finite 0) a" and ab: "fle a b" and c: "fle (Finite 0) c"
  shows "fle (fadd a c) (fadd b c)"
proof (cases c)
  case (Finite t)
  show ?thesis
  proof (cases a)
    case (Finite r)
    show ?thesis
    proof (cases b)
      case (Finite s)
      with ab \<open>a = Finite r\<close> have "r + t \<le> s + t" by simp
      then show ?thesis
        unfolding \<open>a = Finite r\<close> \<open>c = Finite t\<close> Finite fadd.simps by (rule round64_mono)
    next
      case PosInf
      then show ?thesis
        by (cases "round64 (r + t)") (simp_all add: \<open>a = Finite r\<close> \<open>c = Finite t\<close>)
    qed (use ab \<open>a = Finite r\<close> in simp_all)
  next
    case PosInf
    with ab have "b = PosInf" by (cases b) simp_all
    with PosInf Finite show ?thesis by simp
  qed (use a in simp_all)
next
  case PosInf
  have "a \<noteq> NaN" "a \<noteq> NegInf" "b \<noteq> NaN" "b \<noteq> NegInf"
    using a ab by (cases a; cases b; simp)+
  then show ?thesis
    unfolding PosInf by (cases a; cases b) simp_all
qed (use c in simp_all)

subsection \<open>Charges of a consignment\<close>

lemma str_nat_42: "str_nat 42 = ''42''"
  by (simp add: str_nat.simps digit_char_def)

lemma DecimalField_stored_values:
  "DecimalField_stored 0 = 0" "DecimalField_stored 5 = 5" "DecimalField_stored 20 = 20"
  "DecimalField_stored 30 = 30" "DecimalField_stored 100 = 100"
  "DecimalField_stored (1 / 2) = 1 / 2" "DecimalField_stored (311 / 2) = 311 / 2"
  "DecimalField_stored 999 = 999" "DecimalField_stored (1 / 100) = 1 / 100"
  "DecimalField_stored 60000000 = 60000000" "DecimalField_stored 120000000 = 120000000"
  by (rule DecimalField_stored_exact; simp add: decimal_places_def)+


lemma Decimal_add_values:
  "Decimal_add 100 20 = 120" "Decimal_add 120 5 = 125" "Decimal_add 125 30 = 155"
  "Decimal_add 155 (1 / 2) = 311 / 2"
  "Decimal_add 60000000 60000000 = 120000000" "Decimal_add 120000000 0 = 120000000"
  "Decimal_add (1 / 200) (1 / 200) = 1 / 100" "Decimal_add (1 / 100) 0 = 1 / 100"
proof -
  have e: "Decimal_add a b = c"
    if "decimal_places 3 a" "decimal_places 3 b" "\<bar>a + b\<bar> < 10 ^ 25" "a + b = c" for a b c
    using Decimal_add_exact [of 3 a b] that by simp
  show "Decimal_add 100 20 = 120" "Decimal_add 120 5 = 125" "Decimal_add 125 30 = 155"
    "Decimal_add 155 (1 / 2) = 311 / 2"
    "Decimal_add 60000000 60000000 = 120000000" "Decimal_add 120000000 0 = 120000000"
    "Decimal_add (1 / 200) (1 / 200) = 1 / 100" "Decimal_add (1 / 100) 0 = 1 / 100"
    by (rule e; simp add: decimal_places_def)+
qed

lemma cargo_saved:
  "Consignment_save 42 cargo empty_store =
     Inr (cargo\<lparr>c_pk := Some 1, consignment_number := ''CN42'', total_charges := 311 / 2\<rparr>,
          empty_store\<lparr>consignments :=
            [cargo\<lparr>c_pk := Some 1, consignment_number := ''CN42'', total_charges := 311 / 2\<rparr>]\<rparr>)"
  by (simp add: Consignment_save_def Consignment_row_def model_save_def next_pk_def cargo_def
      empty_store_def generate_consignment_number_def str_nat_42 upper_def upper_char_def
      Decimal_add_values DecimalField_stored_values Let_def)







subsection \<open>Identifiers are generated once\<close>

lemma parcel_saved:
  "Shipment_save 42 parcel empty_store =
     Inr (parcel\<lparr>pk := Some 1, tracking_number := ''SH42''\<rparr>,
          empty_store\<lparr>shipments := [parcel\<lparr>pk := Some 1, tracking_number := ''SH42''\<rparr>]\<rparr>)"
  by (simp add: Shipment_save_def model_save_def next_pk_def parcel_def empty_store_def
      generate_tracking_number_def str_nat_42 upper_def upper_char_def Let_def)

lemma parcel_saved_again:
  "Shipment_save 43 (parcel\<lparr>pk := Some 1, tracking_number := ''SH42''\<rparr>)
     (empty_store\<lparr>shipments := [parcel\<lparr>pk := Some 1, tracking_number := ''SH42''\<rparr>]\<rparr>) =
     Inr (parcel\<lparr>pk := Some 1, tracking_number := ''SH42''\<rparr>,
          empty_store\<lparr>shipments := [parcel\<lparr>pk := Some 1, tracking_number := ''SH42''\<rparr>]\<rparr>)"
  by (simp add: Shipment_save_def model_save_def parcel_def empty_store_def Let_def)

lemma invoice_payment_saved:
  "Payment_save 42 invoice_payment empty_store =
     Inr (invoice_payment\<lparr>p_pk := Some 1, payment_id := ''PAY42''\<rparr>,
          empty_store\<lparr>payments :=
            [invoice_payment\<lparr>p_pk := Some 1, payment_id := ''PAY42''\<rparr>]\<rparr>)"
  by (simp add: Payment_save_def model_save_def next_pk_def invoice_payment_def empty_store_def
      generate_payment_id_def str_nat_42 upper_def upper_char_def Let_def)

text \<open>
  Claim C9. A save that the store accepts leaves the object with a non-empty
  identifier, which is the stored one. An identifier that was empty is generated: the
  fixed prefix (\<open>SH\<close>, \<open>CN\<close>, \<open>PAY\<close>) followed by the first 10 or 12 decimal digits
  of the random value. An identifier that was set is left as it is; so every later save
  of the object, with whatever random value and store, keeps the identifier.
\<close>

theorem identifier_generated_once:
  "(Shipment_save u s db = Inr (s', db1) \<longrightarrow>
      tracking_number s' \<noteq> [] \<and> s' \<in> set (shipments db1) \<and>
      (tracking_number s = [] \<longrightarrow> tracking_number s' = ''SH'' @ upper (take 10 (str_nat u))) \<and>
      (tracking_number s \<noteq> [] \<longrightarrow> tracking_number s' = tracking_number s) \<and>
      (\<forall>u' db' s'' db''. Shipment_save u' s' db' = Inr (s'', db'')
          \<longrightarrow> tracking_number s'' = tracking_number s'))
   \<and> (Consignment_save u c db = Inr (c', db2) \<longrightarrow>
      consignment_number c' \<noteq> [] \<and> Consignment_row c' \<in> set (consignments db2) \<and>
      (consignment_number c = []
         \<longrightarrow> consignment_number c' = ''CN'' @ upper (take 12 (str_nat u))) \<and>
      (consignment_number c \<noteq> [] \<longrightarrow> consignment_number c' = consignment_number c) \<and>
      (\<forall>u' db' c'' db''. Consignment_save u' c' db' = Inr (c'', db'')
          \<longrightarrow> consignment_number c'' = consignment_number c'))
   \<and> (Payment_save u p db = Inr (p', db3) \<longrightarrow>
      payment_id p' \<noteq> [] \<and> p' \<in> set (payments db3) \<and>
      (payment_id p = [] \<longrightarrow> payment_id p' = ''PAY'' @ upper (take 12 (str_nat u))) \<and>
      (payment_id p \<noteq> [] \<longrightarrow> payment_id p' = payment_id p) \<and>
      (\<forall>u' db' p'' db''. Payment_save u' p' db' = Inr (p'', db'')
          \<longrightarrow> payment_id p'' = payment_id p'))"
proof (intro conjI impI)
  assume h: "Shipment_save u s db = Inr (s', db1)"
  show ne: "tracking_number s' \<noteq> []"
    using Shipment_save_tracking(1) [OF h] by (simp add: generate_tracking_number_def)
  show "s' \<in> set (shipments db1)" using h by (rule Shipment_save_tracking)
  show "tracking_number s' = ''SH'' @ upper (take 10 (str_nat u))" if "tracking_number s = []"
    using Shipment_save_tracking(1) [OF h] that by (simp add: generate_tracking_number_def)
  show "tracking_number s' = tracking_number s" if "tracking_number s \<noteq> []"
    using Shipment_save_tracking(1) [OF h] that by simp
  show "\<forall>u' db' s'' db''. Shipment_save u' s' db' = Inr (s'', db'')
          \<longrightarrow> tracking_number s'' = tracking_number s'"
    using ne by (auto dest: Shipment_save_tracking(1))
next
  assume h: "Consignment_save u c db = Inr (c', db2)"
  show ne: "consignment_number c' \<noteq> []"
    using Consignment_save_fields(1) [OF h] by (simp add: generate_consignment_number_def)
  show "Consignment_row c' \<in> set (consignments db2)" using h by (rule Consignment_save_fields)
  show "consignment_number c' = ''CN'' @ upper (take 12 (str_nat u))"
    if "consignment_number c = []"
    using Consignment_save_fields(1) [OF h] that by (simp add: generate_consignment_number_def)
  show "consignment_number c' = consignment_number c" if "consignment_number c \<noteq> []"
    using Consignment_save_fields(1) [OF h] that by simp
  show "\<forall>u' db' c'' db''. Consignment_save u' c' db' = Inr (c'', db'')
          \<longrightarrow> consignment_number c'' = consignment_number c'"
    using ne by (auto dest: Consignment_save_fields(1))
next
  assume h: "Payment_save u p db = Inr (p', db3)"
  show ne: "payment_id p' \<noteq> []"
    using Payment_save_id(1) [OF h] by (simp add: generate_payment_id_def)
  show "p' \<in> set (payments db3)" using h by (rule Payment_save_id)
  show "payment_id p' = ''PAY'' @ upper (take 12 (str_nat u))" if "payment_id p = []"
    using Payment_save_id(1) [OF h] that by (simp add: generate_payment_id_def)
  show "payment_id p' = payment_id p" if "payment_id p \<noteq> []"
    using Payment_save_id(1) [OF h] that by simp
  show "\<forall>u' db' p'' db''. Payment_save u' p' db' = Inr (p'', db'')
          \<longrightarrow> payment_id p'' = payment_id p'"
    using ne by (auto dest: Payment_save_id(1))
qed

text \<open>
  With the random value 42 the three sample objects get \<open>SH42\<close>, \<open>CN42\<close> and
  \<open>PAY42\<close>; the shipment saved again with the random value 43 is still \<open>SH42\<close>.
\<close>

theorem identifier_generated_once_witness:
  "Shipment_save 42 parcel empty_store =
     Inr (parcel\<lparr>pk := Some 1, tracking_number := ''SH42''\<rparr>,
          empty_store\<lparr>shipments := [parcel\<lparr>pk := Some 1, tracking_number := ''SH42''\<rparr>]\<rparr>)
   \<and> Shipment_save 43 (parcel\<lparr>pk := Some 1, tracking_number := ''SH42''\<rparr>)
       (empty_store\<lparr>shipments := [parcel\<lparr>pk := Some 1, tracking_number := ''SH42''\<rparr>]\<rparr>) =
     Inr (parcel\<lparr>pk := Some 1, tracking_number := ''SH42''\<rparr>,
          empty_store\<lparr>shipments := [parcel\<lparr>pk := Some 1, tracking_number := ''SH42''\<rparr>]\<rparr>)
   \<and> Consignment_save 42 cargo empty_store =
     Inr (cargo\<lparr>c_pk := Some 1, consignment_number := ''CN42'', total_charges := 311 / 2\<rparr>,
          empty_store\<lparr>consignments :=
            [cargo\<lparr>c_pk := Some 1, consignment_number := ''CN42'', total_charges := 311 / 2\<rparr>]\<rparr>)
   \<and> Payment_save 42 invoice_payment empty_store =
     Inr (invoice_payment\<lparr>p_pk := Some 1, payment_id := ''PAY42''\<rparr>,
          empty_store\<lparr>payments :=
            [invoice_payment\<lparr>p_pk := Some 1, payment_id := ''PAY42''\<rparr>]\<rparr>)
   \<and> tracking_number parcel = [] \<and> consignment_number cargo = []
   \<and> payment_id invoice_payment = []
   \<and> ''SH'' @ upper (take 10 (str_nat 42)) = ''SH42''
   \<and> ''CN'' @ upper (take 12 (str_nat 42)) = ''CN42''
   \<and> ''PAY'' @ upper (take 12 (str_nat 42)) = ''PAY42''"
  using identifier_generated_once
          [of 42 parcel empty_store "parcel\<lparr>pk := Some 1, tracking_number := ''SH42''\<rparr>"
              "empty_store\<lparr>shipments := [parcel\<lparr>pk := Some 1, tracking_number := ''SH42''\<rparr>]\<rparr>"
              cargo
              "cargo\<lparr>c_pk := Some 1, consignment_number := ''CN42'', total_charges := 311 / 2\<rparr>"
              "empty_store\<lparr>consignments :=
                 [cargo\<lparr>c_pk := Some 1, consignment_number := ''CN42'',
                        total_charges := 311 / 2\<rparr>]\<rparr>"
              invoice_payment "invoice_payment\<lparr>p_pk := Some 1, payment_id := ''PAY42''\<rparr>"
              "empty_store\<lparr>payments :=
                 [invoice_payment\<lparr>p_pk := Some 1, payment_id := ''PAY42''\<rparr>]\<rparr>"]
        parcel_saved parcel_saved_again cargo_saved invoice_payment_saved
  by (simp add: parcel_def cargo_def invoice_payment_def str_nat_42 upper_def upper_char_def)

subsection \<open>Averages over no rows\<close>

lemma guarded_division:
  "(if 0 < n then true_div a n else Inr 0) =
     Inr (if n = 0 then 0 else decimal_round 28 (a / of_nat n))"
  by (simp add: true_div_def)

lemma or_0_Avg_agg_Nil [simp]: "or_0 (Avg_agg []) = 0" "or_0 (Sum_agg []) = 0"
  by (simp_all add: or_0_def Avg_agg_def Sum_agg_def)

lemma traverse_str_strftime:
  "traverse (\<lambda>(d, n, r). str_strftime d) groups =
     (if groups = [] then Inr [] else Inl AttributeError)"
  by (cases groups) (auto simp: str_strftime_def)

lemma annotate_Nil_iff [simp]: "annotate key col rows ks = [] \<longleftrightarrow> ks = []"
  by (simp add: annotate_def)

lemma sort_remdups_Nil_iff [simp]:
  "sort (remdups (map f rows)) = [] \<longleftrightarrow> rows = []"
proof -
  have "length (sort (remdups (map f rows))) = length (remdups (map f rows))"
    by simp
  then show ?thesis
    by (metis length_0_conv map_is_Nil_conv remdups_eq_nil_iff)
qed

text \<open>
  The guard of every average holds: no report raises \<open>ZeroDivisionError\<close>, whatever
  the settings, the user, the filters and the store.
\<close>

lemma no_ZeroDivisionError:
  "stats request_user db \<noteq> Inl ZeroDivisionError"
  "ShipmentReportView_get debug month request_user start_date end_date db
     \<noteq> Inl ZeroDivisionError"
  "FinancialReportView_get debug month start_date end_date db \<noteq> Inl ZeroDivisionError"
  "shipment_reports start_date end_date st payment_st db \<noteq> Inl ZeroDivisionError"
  "financial_reports db \<noteq> Inl ZeroDivisionError"
proof -
  show "stats request_user db \<noteq> Inl ZeroDivisionError"
    by (simp add: stats_def Let_def guarded_division)
  show "ShipmentReportView_get debug month request_user start_date end_date db
          \<noteq> Inl ZeroDivisionError"
    by (simp add: ShipmentReportView_get_def Let_def guarded_division strftime_months_def)
  show "FinancialReportView_get debug month start_date end_date db \<noteq> Inl ZeroDivisionError"
    by (simp add: FinancialReportView_get_def Let_def true_div_def strftime_months_def)
  show "shipment_reports start_date end_date st payment_st db \<noteq> Inl ZeroDivisionError"
    unfolding shipment_reports_def Let_def traverse_str_strftime
    by (simp add: annotate_def split: sum.splits)
  show "financial_reports db \<noteq> Inl ZeroDivisionError"
    by (simp add: financial_reports_def date_trunc_months_def)
qed

text \<open>
  \<open>stats\<close> always answers, with the average 0 when it counts no shipment. The two
  API reports answer when the statement of the monthly trend is not formatted for the
  query log, and then with the average 0 over no rows. \<open>shipment_reports\<close> answers
  over no shipment, with the average 0. Whatever a report answers over no rows carries
  the average 0.
\<close>

lemma stats_answers:
  "\<exists>r. stats request_user db = Inr r
       \<and> total_shipments r = length (get_queryset request_user db)
       \<and> (total_shipments r = 0 \<longrightarrow> average_cost r = 0)"
  by (simp add: stats_def Let_def guarded_division)

lemma ShipmentReportView_get_answers:
  assumes "\<not> debug \<or> ((user_type request_user = ''admin'' \<or> user_type request_user = ''staff'')
             \<and> start_date = None \<and> end_date = None)"
  shows "\<exists>r. ShipmentReportView_get debug month request_user start_date end_date db = Inr r
           \<and> (r_total_shipments r = 0 \<longrightarrow> r_average_value r = 0)"
  using assms
  by (auto simp: ShipmentReportView_get_def Let_def guarded_division strftime_months_def)

lemma ShipmentReportView_get_average:
  assumes "ShipmentReportView_get debug month request_user start_date end_date db = Inr r"
    and "r_total_shipments r = 0"
  shows "r_average_value r = 0"
  using assms
  by (auto simp: ShipmentReportView_get_def Let_def guarded_division strftime_months_def
      split: if_splits)

lemma FinancialReportView_get_answers:
  "\<exists>r. FinancialReportView_get False month start_date end_date db = Inr r
       \<and> (filter (\<lambda>p. date_range start_date end_date (p_created_on p))
              (filter (\<lambda>p. p_status p = ''completed'') (payments db)) = []
            \<longrightarrow> f_average_payment r = 0)"
  by (simp add: FinancialReportView_get_def Let_def true_div_def strftime_months_def)

lemma shipment_reports_answers:
  assumes "shipments db = []"
  shows "\<exists>r. shipment_reports start_date end_date st payment_st db = Inr r
           \<and> sc_total_shipments r = 0 \<and> sc_avg_shipment_value r = 0"
  using assms
  by (simp add: shipment_reports_def Let_def annotate_def split: option.splits)

text \<open>
  With \<open>DEBUG\<close> on, as the settings have it by default, the statement of the monthly
  trend carries a parameter whenever the user is not staff or a date bounds the
  report, and always in the financial report: the view raises \<open>ValueError\<close> instead
  of answering. The financial page report never answers on this engine, and the
  shipment page report raises as soon as it selects a shipment.
\<close>

lemma ShipmentReportView_get_debug:
  assumes "user_type request_user \<noteq> ''admin'' \<and> user_type request_user \<noteq> ''staff''
           \<or> start_date \<noteq> None \<or> end_date \<noteq> None"
  shows "ShipmentReportView_get True month request_user start_date end_date db = Inl ValueError"
  using assms
  by (auto simp: ShipmentReportView_get_def Let_def guarded_division strftime_months_def)

lemma FinancialReportView_get_debug:
  "FinancialReportView_get True month start_date end_date db = Inl ValueError"
  by (simp add: FinancialReportView_get_def Let_def strftime_months_def)

lemma financial_reports_fails: "financial_reports db = Inl OperationalError"
  by (simp add: financial_reports_def date_trunc_months_def)

lemma shipment_reports_fails:
  assumes "shipments db \<noteq> []"
  shows "shipment_reports None None None None db = Inl AttributeError"
  using assms
  unfolding shipment_reports_def Let_def traverse_str_strftime
  by (simp add: date_range_def)

text \<open>
  Claim C8, on the code. The guard of the averages is right and \<open>stats\<close> always
  answers, with the average 0 over no shipments. The cited report does not: for a user
  who is not staff, or with a date bound, it computes the average and then raises
  \<open>ValueError\<close> from the statement of its monthly trend under the default
  settings, where the same request with \<open>DEBUG\<close> off is answered, with the average
  0 over an empty selection. The financial report of the API fails in the same way on
  every request, and the financial page report is refused by the engine.
\<close>

theorem report_average_not_answered:
  "(user_type ru \<noteq> ''admin'' \<and> user_type ru \<noteq> ''staff''
      \<or> start_date \<noteq> None \<or> end_date \<noteq> None \<longrightarrow>
      ShipmentReportView_get True month ru start_date end_date db = Inl ValueError)
   \<and> (\<exists>r. ShipmentReportView_get False month ru start_date end_date db = Inr r
         \<and> (r_total_shipments r = 0 \<longrightarrow> r_average_value r = 0))
   \<and> FinancialReportView_get True month start_date end_date db = Inl ValueError
   \<and> financial_reports db = Inl OperationalError
   \<and> (\<exists>r. stats ru db = Inr r \<and> (total_shipments r = 0 \<longrightarrow> average_cost r = 0))"
proof (intro conjI impI)
  assume "user_type ru \<noteq> ''admin'' \<and> user_type ru \<noteq> ''staff''
      \<or> start_date \<noteq> None \<or> end_date \<noteq> None"
  then show "ShipmentReportView_get True month ru start_date end_date db = Inl ValueError"
    by (rule ShipmentReportView_get_debug)
next
  show "\<exists>r. ShipmentReportView_get False month ru start_date end_date db = Inr r
         \<and> (r_total_shipments r = 0 \<longrightarrow> r_average_value r = 0)"
    by (rule ShipmentReportView_get_answers) simp
  show "FinancialReportView_get True month start_date end_date db = Inl ValueError"
    by (rule FinancialReportView_get_debug)
  show "financial_reports db = Inl OperationalError"
    by (rule financial_reports_fails)
  show "\<exists>r. stats ru db = Inr r \<and> (total_shipments r = 0 \<longrightarrow> average_cost r = 0)"
    using stats_answers [of ru db] by auto
qed

text \<open>
  A customer without shipments asks for the report on the empty store, with a calendar
  of thirty-day months. \<open>stats\<close> answers 0; the shipment report raises with
  \<open>DEBUG\<close> on and answers 0 with \<open>DEBUG\<close> off, and so does the financial report;
  the shipment page report answers 0 over no shipment and raises over the booked one;
  the financial page report raises.
\<close>

theorem report_average_not_answered_witness:
  "stats customer empty_store =
     Inr \<lparr>total_shipments = 0, pending_shipments = 0, in_transit_shipments = 0,
          delivered_shipments = 0, total_spent = 0, average_cost = 0\<rparr>
   \<and> ShipmentReportView_get True thirty_days customer None None empty_store = Inl ValueError
   \<and> ShipmentReportView_get False thirty_days customer None None empty_store =
     Inr \<lparr>r_total_shipments = 0, r_total_revenue = 0, r_average_value = 0,
          r_status_distribution = {}, r_monthly_trend = []\<rparr>
   \<and> FinancialReportView_get True thirty_days None None empty_store = Inl ValueError
   \<and> FinancialReportView_get False thirty_days None None empty_store =
     Inr \<lparr>f_total_revenue = 0, f_payment_methods = {}, f_monthly_revenue = [],
          f_average_payment = 0\<rparr>
   \<and> shipment_reports None None None None empty_store =
     Inr \<lparr>sc_total_shipments = 0, sc_total_revenue = 0, sc_avg_shipment_value = 0,
          sc_dates = [], sc_counts = [], sc_revenues = [], sc_shipments = []\<rparr>
   \<and> shipment_reports None None None None booked_store = Inl AttributeError
   \<and> financial_reports empty_store = Inl OperationalError"
  using report_average_not_answered [of customer None None thirty_days empty_store]
  by (simp add: stats_def ShipmentReportView_get_def FinancialReportView_get_def
      shipment_reports_def financial_reports_def date_trunc_months_def strftime_months_def
      str_strftime_def annotate_def get_queryset_def customer_def empty_store_def
      booked_store_def date_range_def Let_def)

subsection \<open>Status changes on a well-formed store\<close>

lemma model_save_existing:
  assumes "r0 \<in> set rows" and "inj_on ident (set rows)" and "key r0 = Some i"
    and "ident r = ident r0" and "key r = Some i"
  shows "model_save key set_key ident r rows =
           Inr (r, map (\<lambda>x. if key x = Some i then r else x) rows)"
proof -
  have "\<not> list_ex (\<lambda>x. key x \<noteq> key r \<and> ident x = ident r) rows"
    using assms by (auto simp: list_ex_iff dest: inj_onD)
  moreover have "list_ex (\<lambda>x. key x = Some i) rows"
    using assms by (auto simp: list_ex_iff)
  ultimately show ?thesis
    using assms by (simp add: model_save_def)
qed

lemma wf_shipment:
  assumes "wf_store db" and "s \<in> set (shipments db)"
  shows "pk s \<noteq> None" and "tracking_number s \<noteq> []"
    and "\<And>x. x \<in> set (shipments db) \<Longrightarrow> pk x = pk s \<Longrightarrow> x = s"
    and "\<And>x. x \<in> set (shipments db) \<Longrightarrow> tracking_number x = tracking_number s \<Longrightarrow> x = s"
    and "inj_on tracking_number (set (shipments db))"
  using assms
  by (auto simp: wf_store_def list_all_iff distinct_map dest: inj_onD)

lemma Shipment_save_existing:
  assumes wf: "wf_store db" and s: "s \<in> set (shipments db)" and i: "pk s = Some i"
  shows "Shipment_save u (s\<lparr>status := ns\<rparr>) db =
           Inr (s\<lparr>status := ns\<rparr>,
                db\<lparr>shipments := map (\<lambda>x. if pk x = Some i then s\<lparr>status := ns\<rparr> else x)
                                   (shipments db)\<rparr>)"
proof -
  have "model_save pk (\<lambda>i r. r\<lparr>pk := Some i\<rparr>) tracking_number (s\<lparr>status := ns\<rparr>) (shipments db) =
          Inr (s\<lparr>status := ns\<rparr>,
               map (\<lambda>x. if pk x = Some i then s\<lparr>status := ns\<rparr> else x) (shipments db))"
    using s wf_shipment(5) [OF wf s] i by (rule model_save_existing) (simp_all add: i)
  then show ?thesis
    using wf_shipment(2) [OF wf s] by (simp add: Shipment_save_def)
qed

lemma replaced_rows:
  fixes ns :: string
  assumes wf: "wf_store db" and s: "s \<in> set (shipments db)" and i: "pk s = Some i"
  defines "rows \<equiv> map (\<lambda>x. if pk x = Some i then s\<lparr>status := ns\<rparr> else x) (shipments db)"
  shows "map pk rows = map pk (shipments db)"
    and "map tracking_number rows = map tracking_number (shipments db)"
    and "find (\<lambda>x. tracking_number x = t) rows =
           map_option (\<lambda>x. if pk x = Some i then s\<lparr>status := ns\<rparr> else x)
             (find (\<lambda>x. tracking_number x = t) (shipments db))"
proof -
  have same: "x = s" if "x \<in> set (shipments db)" "pk x = Some i" for x
    using wf_shipment(3) [OF wf s that(1)] that(2) i by simp
  show "map pk rows = map pk (shipments db)"
    unfolding rows_def using i by (auto simp: map_idI dest: same)
  show "map tracking_number rows = map tracking_number (shipments db)"
    unfolding rows_def by (auto dest: same)
  show "find (\<lambda>x. tracking_number x = t) rows =
           map_option (\<lambda>x. if pk x = Some i then s\<lparr>status := ns\<rparr> else x)
             (find (\<lambda>x. tracking_number x = t) (shipments db))"
    unfolding rows_def by (rule find_replace) (auto dest: same)
qed

lemma update_shipment_status_accepted:
  assumes wf: "wf_store db"
    and f: "find (\<lambda>s. tracking_number s = tr) (shipments db) = Some s"
    and i: "pk s = Some i"
    and ns: "POST ''status'' = Some ns" "ns \<noteq> []" "ns \<noteq> status s"
  shows "update_shipment_status u (Some usr) ''POST'' POST tr db =
           (Inr (Redirect ''shipment_detail'' tr (Some (''Shipment status updated to '' @ ns))),
            db\<lparr>shipments := map (\<lambda>x. if pk x = Some i then s\<lparr>status := ns\<rparr> else x)
                               (shipments db),
               shipment_histories := shipment_histories db @
                 [\<lparr>h_shipment = i, h_status = ns, h_location = post_get POST ''location'' [],
                   h_description = post_get POST ''description'' [],
                   h_created_by = Some (uid usr)\<rparr>]\<rparr>)"
proof -
  have s: "s \<in> set (shipments db)" using find_in_set [OF f] by simp
  show ?thesis
    using ns i
    by (simp add: update_shipment_status_def f Let_def Shipment_save_existing [OF wf s i]
        ShipmentHistory_create_def)
qed

lemma update_shipment_status_refused:
  assumes "\<not> accepted db (ru, m, POST, tr)"
  shows "snd (update_shipment_status u ru m POST tr db) = db"
  using assms
  by (auto simp: update_shipment_status_def accepted_def Let_def split: option.splits)

lemma wf_store_accepted:
  assumes wf: "wf_store db" and s: "s \<in> set (shipments db)" and i: "pk s = Some i"
    and h: "h_shipment h = i"
  shows "wf_store (db\<lparr>shipments := map (\<lambda>x. if pk x = Some i then s\<lparr>status := ns\<rparr> else x)
                               (shipments db),
               shipment_histories := shipment_histories db @ [h]\<rparr>)"
proof -
  let ?rows = "map (\<lambda>x. if pk x = Some i then s\<lparr>status := ns\<rparr> else x) (shipments db)"
  have p: "map pk ?rows = map pk (shipments db)"
    and t: "map tracking_number ?rows = map tracking_number (shipments db)"
    using replaced_rows(1,2) [OF wf s i] by auto
  have mem: "Some i \<in> set (map pk (shipments db))" using s i by force
  have all: "list_all (\<lambda>s. pk s \<noteq> None \<and> tracking_number s \<noteq> []) ?rows"
    using wf wf_shipment(1,2) [OF wf s] by (auto simp: wf_store_def list_all_iff)
  have hs: "list_all (\<lambda>h. Some (h_shipment h) \<in> set (map pk ?rows))
              (shipment_histories db @ [h])"
    unfolding p using wf mem h by (simp add: wf_store_def del: set_map)
  have d: "distinct (map pk ?rows)" "distinct (map tracking_number ?rows)"
    unfolding p t using wf by (simp_all add: wf_store_def)
  show ?thesis
    unfolding wf_store_def using wf all hs d by (simp add: wf_store_def del: set_map map_map)
qed


lemma accepted_cases:
  assumes "accepted db (ru, m, POST, tr)"
  obtains usr s ns where "ru = Some usr" "m = ''POST''"
    "find (\<lambda>s. tracking_number s = tr) (shipments db) = Some s"
    "POST ''status'' = Some ns" "ns \<noteq> []" "ns \<noteq> status s"
  using assms by (auto simp: accepted_def split: option.splits)

lemma serve_accepted:
  assumes wf: "wf_store db" and acc: "accepted db (ru, m, POST, tr)"
  obtains s ns i h where
    "find (\<lambda>s. tracking_number s = tr) (shipments db) = Some s" "pk s = Some i"
    "POST ''status'' = Some ns" "ns \<noteq> []" "ns \<noteq> status s"
    "h_shipment h = i" "h_status h = ns"
    "serve u db (ru, m, POST, tr) =
       db\<lparr>shipments := map (\<lambda>x. if pk x = Some i then s\<lparr>status := ns\<rparr> else x) (shipments db),
          shipment_histories := shipment_histories db @ [h]\<rparr>"
proof -
  from acc obtain usr s ns where a: "ru = Some usr" "m = ''POST''"
    "find (\<lambda>s. tracking_number s = tr) (shipments db) = Some s"
    "POST ''status'' = Some ns" "ns \<noteq> []" "ns \<noteq> status s"
    by (rule accepted_cases)
  have s: "s \<in> set (shipments db)" using find_in_set [OF a(3)] by simp
  obtain i where i: "pk s = Some i" using wf_shipment(1) [OF wf s] by auto
  show ?thesis
    by (rule that [OF a(3) i a(4,5,6), where h = "\<lparr>h_shipment = i, h_status = ns,
          h_location = post_get POST ''location'' [],
          h_description = post_get POST ''description'' [], h_created_by = Some (uid usr)\<rparr>"])
       (simp_all add: serve_def a(1,2) update_shipment_status_accepted [where POST = POST, OF wf a(3) i a(4,5,6)])
qed

lemma serve_refused: "\<not> accepted db rq \<Longrightarrow> serve u db rq = db"
  by (cases rq) (simp add: serve_def update_shipment_status_refused)

lemma wf_store_serve:
  assumes wf: "wf_store db"
  shows "wf_store (serve u db rq)"
proof (cases "accepted db rq")
  case False
  then show ?thesis using wf by (simp add: serve_refused)
next
  case True
  obtain ru m POST tr where rq: "rq = (ru, m, POST, tr)" by (cases rq)
  from wf True [unfolded rq] obtain s ns i h where
    f: "find (\<lambda>s. tracking_number s = tr) (shipments db) = Some s" and i: "pk s = Some i"
    and h: "h_shipment h = i"
    and sv: "serve u db (ru, m, POST, tr) =
       db\<lparr>shipments := map (\<lambda>x. if pk x = Some i then s\<lparr>status := ns\<rparr> else x) (shipments db),
          shipment_histories := shipment_histories db @ [h]\<rparr>"
    by (rule serve_accepted)
  have s: "s \<in> set (shipments db)" using find_in_set [OF f] by simp
  show ?thesis
    unfolding rq sv using wf s i h by (rule wf_store_accepted)
qed

lemma history_count_serve:
  assumes wf: "wf_store db"
  shows "history_count (serve u db rq) t =
           history_count db t + (if accepted db rq \<and> snd (snd (snd rq)) = t then 1 else 0)"
proof (cases "accepted db rq")
  case False
  then show ?thesis by (simp add: serve_refused)
next
  case True
  obtain ru m POST tr where rq: "rq = (ru, m, POST, tr)" by (cases rq)
  from wf True [unfolded rq] obtain s ns i h where
    f: "find (\<lambda>s. tracking_number s = tr) (shipments db) = Some s" and i: "pk s = Some i"
    and h: "h_shipment h = i"
    and sv: "serve u db (ru, m, POST, tr) =
       db\<lparr>shipments := map (\<lambda>x. if pk x = Some i then s\<lparr>status := ns\<rparr> else x) (shipments db),
          shipment_histories := shipment_histories db @ [h]\<rparr>"
    by (rule serve_accepted)
  have s: "s \<in> set (shipments db)" and ts: "tracking_number s = tr"
    using find_in_set [OF f] by simp_all
  note fr = replaced_rows(3) [where ns = ns and t = t, OF wf s i]
  show ?thesis
  proof (cases "find (\<lambda>x. tracking_number x = t) (shipments db)")
    case None
    with f have "t \<noteq> tr" by auto
    with None show ?thesis
      by (simp add: rq sv history_count_def fr True [unfolded rq])
  next
    case (Some x)
    have x: "x \<in> set (shipments db)" and tx: "tracking_number x = t"
      using find_in_set [OF Some] by simp_all
    have eq: "pk x = Some i \<longleftrightarrow> tr = t"
    proof
      assume "pk x = Some i"
      with wf_shipment(3) [OF wf s x] i have "x = s" by simp
      with ts tx show "tr = t" by simp
    next
      assume "tr = t"
      with f Some have "x = s" by simp
      with i show "pk x = Some i" by simp
    qed
    have pkf: "pk (if pk x = Some i then s\<lparr>status := ns\<rparr> else x) = pk x"
      using i by simp
    have "history_count (serve u db rq) t =
            length (filter (\<lambda>h'. Some (h_shipment h') = pk x) (shipment_histories db @ [h]))"
      by (simp add: rq sv history_count_def fr Some history_of_def pkf del: filter_append)
    also have "\<dots> = length (filter (\<lambda>h'. Some (h_shipment h') = pk x) (shipment_histories db))
                    + (if pk x = Some i then 1 else 0)"
      using h by auto
    also have "\<dots> = history_count db t + (if tr = t then 1 else 0)"
      by (simp add: history_count_def Some history_of_def eq)
    finally show ?thesis
      using True by (simp add: rq)
  qed
qed

lemma history_count_run:
  "wf_store db \<Longrightarrow>
     history_count (run_updates u db rqs) t = history_count db t + changes_applied u db t rqs"
proof (induction rqs arbitrary: db)
  case Nil
  show ?case by simp
next
  case (Cons rq rqs)
  have "wf_store (serve u db rq)" using Cons.prems by (rule wf_store_serve)
  from Cons.IH [OF this] history_count_serve [OF Cons.prems, of u rq t]
  show ?case by simp
qed

subsection \<open>Creating a shipment\<close>

lemma Shipment_save_new:
  assumes "pk self = None" and "Shipment_save u self db = Inr (s, db1)"
  shows "pk s = Some (next_pk (map pk (shipments db)))"
    and "db1 = db\<lparr>shipments := shipments db @ [s]\<rparr>"
    and "tracking_number s \<noteq> []"
    and "status s = status self"
    and "\<And>x. x \<in> set (shipments db) \<Longrightarrow> pk x \<noteq> None
           \<Longrightarrow> tracking_number x \<noteq> tracking_number s"
  using assms
  by (auto simp: Shipment_save_def model_save_def Let_def list_ex_iff generate_tracking_number_def
      split: if_splits)

lemma create_shipment_created:
  assumes wf: "wf_store db" and new: "pk form = None"
    and ok: "create_shipment cost u (Some usr) ''POST'' (Some form) db = (Inr page, db')"
  shows "\<exists>s i. page = Redirect ''shipment_detail'' (tracking_number s)
                 (Some (''Shipment created successfully! Tracking Number: '' @ tracking_number s))
           \<and> find (\<lambda>x. tracking_number x = tracking_number s) (shipments db') = Some s
           \<and> pk s = Some i \<and> status s = status form
           \<and> history_of db' s =
               [\<lparr>h_shipment = i, h_status = ''pending'', h_location = [],
                 h_description = ''Shipment created successfully'', h_created_by = None\<rparr>]
           \<and> history_count db' (tracking_number s) = 1
           \<and> wf_store db'"
proof -
  let ?self = "form\<lparr>owner := uid usr, created_by := Some (uid usr),
                 shipping_cost := cost (weight form) (shipping_method form)
                                    (sender_country form) (receiver_country form),
                 total_cost := cost (weight form) (shipping_method form)
                                 (sender_country form) (receiver_country form)
                               + insurance_cost form + tax form\<rparr>"
  let ?i = "next_pk (map pk (shipments db))"
  let ?h = "\<lparr>h_shipment = ?i, h_status = ''pending'', h_location = [],
             h_description = ''Shipment created successfully'', h_created_by = None\<rparr>"
  from ok obtain s db1 where sv: "Shipment_save u ?self db = Inr (s, db1)"
    by (auto simp: create_shipment_def Let_def split: sum.splits)
  have pkself: "pk ?self = None" using new by simp
  note S = Shipment_save_new [OF pkself sv]
  from ok sv S(1) have page: "page = Redirect ''shipment_detail'' (tracking_number s)
                 (Some (''Shipment created successfully! Tracking Number: '' @ tracking_number s))"
    and db': "db' = db\<lparr>shipments := shipments db @ [s],
                       shipment_histories := shipment_histories db @ [?h]\<rparr>"
    by (auto simp: create_shipment_def Let_def ShipmentHistory_create_def S(2))
  have other: "tracking_number x \<noteq> tracking_number s" "pk x \<noteq> Some ?i"
    if "x \<in> set (shipments db)" for x
    using that S(5) [OF that] wf_shipment(1) [OF wf that] next_pk_fresh [of "map pk (shipments db)"]
    by force+
  have f: "find (\<lambda>x. tracking_number x = tracking_number s) (shipments db') = Some s"
  proof -
    have "find (\<lambda>x. tracking_number x = tracking_number s) (shipments db) = None"
      using other(1) by (auto simp: find_None_iff)
    then show ?thesis by (simp add: db' find_append)
  qed
  have old: "Some (h_shipment h) \<noteq> Some ?i" if "h \<in> set (shipment_histories db)" for h
    using that wf next_pk_fresh [of "map pk (shipments db)"]
    by (auto simp: wf_store_def list_all_iff)
  have hist: "history_of db' s = [?h]"
    using old by (auto simp: history_of_def db' S(1) filter_empty_conv)
  have npk: "pk s \<notin> set (map pk (shipments db))"
    using other(2) S(1) by force
  have ntn: "tracking_number s \<notin> set (map tracking_number (shipments db))"
    using other(1) by force
  have fk: "list_all (\<lambda>h. Some (h_shipment h) \<in> set (map pk (shipments db @ [s])))
              (shipment_histories db @ [?h])"
    using wf S(1) by (auto simp: wf_store_def list_all_iff)
  have wf': "wf_store db'"
    unfolding wf_store_def db' using wf npk ntn fk S(1,3)
    by (simp add: wf_store_def del: set_map)
  show ?thesis
    using page f S(1,4) hist wf' by (auto simp: history_count_def)
qed

subsection \<open>A status change and its history record\<close>

text \<open>
  Claim C2, as the code has it. On a well-formed store, a request to
  \<open>update_shipment_status\<close> that passes the guards of the handler (a logged-in
  visitor, a POST, an existing shipment, a status that is not empty and differs from the
  current one) sets the status of the shipment and appends exactly one history record,
  which carries the new status; every other request leaves the store as it is. Over any
  run of requests the number of history records of a shipment is the number it had
  before the run plus the number of accepted changes to it. That number is 1 right
  after \<open>create_shipment\<close>, which writes the initial \<open>pending\<close> record. The two
  writes of a change are two saves, one after the other; the handlers open no
  transaction.
\<close>

theorem status_change_history:
  assumes wf: "wf_store db"
  shows "(accepted db (ru, m, POST, tr) \<longrightarrow>
            (\<exists>s ns i h. find (\<lambda>s. tracking_number s = tr) (shipments db) = Some s
               \<and> POST ''status'' = Some ns \<and> pk s = Some i
               \<and> fst (update_shipment_status u ru m POST tr db) =
                   Inr (Redirect ''shipment_detail'' tr
                          (Some (''Shipment status updated to '' @ ns)))
               \<and> find (\<lambda>s. tracking_number s = tr) (shipments (serve u db (ru, m, POST, tr))) =
                   Some (s\<lparr>status := ns\<rparr>)
               \<and> shipment_histories (serve u db (ru, m, POST, tr)) = shipment_histories db @ [h]
               \<and> h_shipment h = i \<and> h_status h = ns))
       \<and> (\<not> accepted db (ru, m, POST, tr) \<longrightarrow> serve u db (ru, m, POST, tr) = db)
       \<and> history_count (run_updates u db rqs) t = history_count db t + changes_applied u db t rqs
       \<and> (pk form = None
            \<and> create_shipment cost u (Some usr) ''POST'' (Some form) db = (Inr page, db')
          \<longrightarrow> (\<exists>s. page = Redirect ''shipment_detail'' (tracking_number s)
                        (Some (''Shipment created successfully! Tracking Number: ''
                               @ tracking_number s))
                 \<and> find (\<lambda>x. tracking_number x = tracking_number s) (shipments db') = Some s
                 \<and> map h_status (history_of db' s) = [''pending'']
                 \<and> history_count db' (tracking_number s) = 1))"
proof (intro conjI impI)
  assume acc: "accepted db (ru, m, POST, tr)"
  then obtain usr s ns where a: "ru = Some usr" "m = ''POST''"
    "find (\<lambda>s. tracking_number s = tr) (shipments db) = Some s"
    "POST ''status'' = Some ns" "ns \<noteq> []" "ns \<noteq> status s"
    by (rule accepted_cases)
  have s: "s \<in> set (shipments db)" using find_in_set [OF a(3)] by simp
  obtain i where i: "pk s = Some i" using wf_shipment(1) [OF wf s] by auto
  note up = update_shipment_status_accepted [where POST = POST and u = u and usr = usr,
      OF wf a(3) i a(4,5,6)]
  have "find (\<lambda>s. tracking_number s = tr) (shipments (serve u db (ru, m, POST, tr))) =
          Some (s\<lparr>status := ns\<rparr>)"
    using i by (simp add: serve_def a(1,2) up replaced_rows(3) [OF wf s i] a(3))
  then show "\<exists>s ns i h. find (\<lambda>s. tracking_number s = tr) (shipments db) = Some s
               \<and> POST ''status'' = Some ns \<and> pk s = Some i
               \<and> fst (update_shipment_status u ru m POST tr db) =
                   Inr (Redirect ''shipment_detail'' tr
                          (Some (''Shipment status updated to '' @ ns)))
               \<and> find (\<lambda>s. tracking_number s = tr) (shipments (serve u db (ru, m, POST, tr))) =
                   Some (s\<lparr>status := ns\<rparr>)
               \<and> shipment_histories (serve u db (ru, m, POST, tr)) = shipment_histories db @ [h]
               \<and> h_shipment h = i \<and> h_status h = ns"
    using a(3,4) i by (simp add: serve_def a(1,2) up)
next
  assume "\<not> accepted db (ru, m, POST, tr)"
  then show "serve u db (ru, m, POST, tr) = db" by (rule serve_refused)
next
  show "history_count (run_updates u db rqs) t = history_count db t + changes_applied u db t rqs"
    using wf by (rule history_count_run)
next
  assume "pk form = None
            \<and> create_shipment cost u (Some usr) ''POST'' (Some form) db = (Inr page, db')"
  then have "pk form = None"
    and "create_shipment cost u (Some usr) ''POST'' (Some form) db = (Inr page, db')"
    by simp_all
  with wf have "\<exists>s i. page = Redirect ''shipment_detail'' (tracking_number s)
                 (Some (''Shipment created successfully! Tracking Number: '' @ tracking_number s))
           \<and> find (\<lambda>x. tracking_number x = tracking_number s) (shipments db') = Some s
           \<and> pk s = Some i \<and> status s = status form
           \<and> history_of db' s =
               [\<lparr>h_shipment = i, h_status = ''pending'', h_location = [],
                 h_description = ''Shipment created successfully'', h_created_by = None\<rparr>]
           \<and> history_count db' (tracking_number s) = 1
           \<and> wf_store db'"
    by (rule create_shipment_created)
  then show "\<exists>s. page = Redirect ''shipment_detail'' (tracking_number s)
                        (Some (''Shipment created successfully! Tracking Number: ''
                               @ tracking_number s))
                 \<and> find (\<lambda>x. tracking_number x = tracking_number s) (shipments db') = Some s
                 \<and> map h_status (history_of db' s) = [''pending'']
                 \<and> history_count db' (tracking_number s) = 1"
    by auto
qed

text \<open>Evaluation on the sample store.\<close>

lemma wf_empty_store: "wf_store empty_store"
  by (simp add: wf_store_def empty_store_def)

lemma wf_booked_store: "wf_store booked_store"
  by (simp add: wf_store_def booked_store_def booked_parcel_def parcel_def)

lemma parcel_created:
  "create_shipment flat_tariff 42 (Some clerk) ''POST'' (Some parcel) empty_store =
     (Inr (Redirect ''shipment_detail'' ''SH42''
             (Some ''Shipment created successfully! Tracking Number: SH42'')),
      booked_store)"
  by (simp add: create_shipment_def Shipment_save_def model_save_def next_pk_def
      ShipmentHistory_create_def generate_tracking_number_def str_nat_42 upper_def upper_char_def
      flat_tariff_def clerk_def parcel_def empty_store_def booked_store_def booked_parcel_def
      Let_def)

lemma booked_accepts:
  "accepted booked_store transit_request"
  "serve 0 booked_store transit_request =
     booked_store\<lparr>shipments := [booked_parcel\<lparr>status := ''in_transit''\<rparr>],
       shipment_histories := shipment_histories booked_store @
         [\<lparr>h_shipment = 1, h_status = ''in_transit'', h_location = ''Paris'',
           h_description = [], h_created_by = Some 1\<rparr>]\<rparr>"
  by (simp_all add: accepted_def serve_def transit_request_def booked_store_def booked_parcel_def
      parcel_def clerk_def update_shipment_status_def Shipment_save_def model_save_def
      ShipmentHistory_create_def post_get_def Let_def)


lemma booked_history_count: "history_count booked_store ''SH42'' = 1"
  by (simp add: history_count_def history_of_def booked_store_def booked_parcel_def parcel_def)

lemma transit_store_steps:
  "\<not> accepted (serve 0 booked_store transit_request) transit_request"
  "accepted (serve 0 booked_store transit_request) delivered_request"
  unfolding booked_accepts(2)
  by (simp_all add: accepted_def transit_request_def delivered_request_def
      booked_store_def booked_parcel_def parcel_def clerk_def)

lemma booked_changes:
  "changes_applied 0 booked_store ''SH42'' [transit_request, transit_request, delivered_request] = 2"
proof -
  have 1: "serve 0 (serve 0 booked_store transit_request) transit_request =
             serve 0 booked_store transit_request"
    using transit_store_steps(1) by (rule serve_refused)
  show ?thesis
    using booked_accepts(1) transit_store_steps
    by (simp add: 1) (simp add: transit_request_def delivered_request_def)
qed

text \<open>
  The sample shipment has one record after its creation. Of the run "in transit, in
  transit again, delivered" the second request is refused, two changes are applied, and
  the shipment ends with three records.
\<close>

theorem status_change_history_witness:
  "wf_store booked_store \<and> wf_store empty_store
   \<and> accepted booked_store transit_request
   \<and> serve 0 booked_store transit_request =
       booked_store\<lparr>shipments := [booked_parcel\<lparr>status := ''in_transit''\<rparr>],
         shipment_histories := shipment_histories booked_store @
           [\<lparr>h_shipment = 1, h_status = ''in_transit'', h_location = ''Paris'',
             h_description = [], h_created_by = Some 1\<rparr>]\<rparr>
   \<and> \<not> accepted (serve 0 booked_store transit_request) transit_request
   \<and> serve 0 (serve 0 booked_store transit_request) transit_request =
       serve 0 booked_store transit_request
   \<and> history_count booked_store ''SH42'' = 1
   \<and> changes_applied 0 booked_store ''SH42''
        [transit_request, transit_request, delivered_request] = 2
   \<and> history_count
        (run_updates 0 booked_store [transit_request, transit_request, delivered_request])
        ''SH42'' = 3
   \<and> pk parcel = None
   \<and> create_shipment flat_tariff 42 (Some clerk) ''POST'' (Some parcel) empty_store =
       (Inr (Redirect ''shipment_detail'' ''SH42''
               (Some ''Shipment created successfully! Tracking Number: SH42'')),
        booked_store)"
  using status_change_history [OF wf_booked_store, of "Some clerk" "''POST''"
          "[''status'' \<mapsto> ''in_transit'', ''location'' \<mapsto> ''Paris'']" "''SH42''" 0
          "[transit_request, transit_request, delivered_request]" "''SH42''"]
        status_change_history [OF wf_store_serve [OF wf_booked_store, of 0 transit_request],
          of "Some clerk" "''POST''"
          "[''status'' \<mapsto> ''in_transit'', ''location'' \<mapsto> ''Paris'']" "''SH42''" 0 "[]" "''SH42''"]
        status_change_history [OF wf_empty_store, of None "[]" Map.empty "[]" 42 "[]" "[]"
          parcel flat_tariff clerk]
        wf_booked_store wf_empty_store booked_accepts transit_store_steps(1)
        booked_history_count booked_changes parcel_created
        serve_refused [OF transit_store_steps(1), of 0]
  by (simp add: parcel_def)

text \<open>
  The claim as it was stated fails twice on the sample data. The shipment that
  \<open>create_shipment\<close> has just stored has one history record although no status
  change was applied to it. And the webhook, sent a \<open>null\<close> location for this
  shipment, saves the status \<open>delivered\<close>, is then refused the history record by the
  store, and answers 400: the status has changed and the history still holds the
  \<open>pending\<close> record alone.
\<close>

theorem status_change_counterexample:
  "create_shipment flat_tariff 42 (Some clerk) ''POST'' (Some parcel) empty_store =
     (Inr (Redirect ''shipment_detail'' ''SH42''
             (Some ''Shipment created successfully! Tracking Number: SH42'')),
      booked_store)
   \<and> history_count booked_store ''SH42'' = 1
   \<and> changes_applied 0 booked_store ''SH42'' [] = 0
   \<and> history_count booked_store ''SH42'' \<noteq> changes_applied 0 booked_store ''SH42'' []
   \<and> webhook_update 0 ''POST'' (Inr null_location_body) booked_store =
       (JsonException IntegrityError 400,
        booked_store\<lparr>shipments := [booked_parcel\<lparr>status := ''delivered''\<rparr>]\<rparr>)
   \<and> shipment_histories (booked_store\<lparr>shipments := [booked_parcel\<lparr>status := ''delivered''\<rparr>]\<rparr>) =
       [\<lparr>h_shipment = 1, h_status = ''pending'', h_location = [],
         h_description = ''Shipment created successfully'', h_created_by = None\<rparr>]"
proof -
  have "webhook_update 0 ''POST'' (Inr null_location_body) booked_store =
       (JsonException IntegrityError 400,
        booked_store\<lparr>shipments := [booked_parcel\<lparr>status := ''delivered''\<rparr>]\<rparr>)"
    by (simp add: webhook_update_def null_location_body_def data_get_def booked_store_def
        booked_parcel_def parcel_def Shipment_save_def model_save_def ShipmentHistory_create_def
        Let_def)
  then show ?thesis
    using parcel_created booked_history_count by (simp add: booked_store_def)
qed

subsection \<open>Saving a stored consignment\<close>






subsection \<open>No transition is refused\<close>






lemmas depot_defs =
  depot_store_def booked_store_def booked_parcel_def parcel_def stored_cargo_def cargo_def
  clerk_def delivered_body_def on_hold_body_def unknown_body_def data_get_def post_get_def




subsection \<open>Approval\<close>












subsection \<open>Evaluating the rounding\<close>

lemma binade_unique:
  assumes "2 powi e \<le> x" and "x < 2 powi (e + 1)"
  shows "binade x = e"
proof -
  have x: "0 < x" using assms(1) powi2_pos [of e] by linarith
  note b = binade_bounds [OF x]
  have "\<not> binade x + 1 \<le> e"
  proof
    assume "binade x + 1 \<le> e"
    then have "(2::rat) powi (binade x + 1) \<le> 2 powi e" by (rule powi2_mono)
    with b(2) assms(1) show False by linarith
  qed
  moreover have "\<not> e + 1 \<le> binade x"
  proof
    assume "e + 1 \<le> binade x"
    then have "(2::rat) powi (e + 1) \<le> 2 powi (binade x)" by (rule powi2_mono)
    with b(1) assms(2) show False by linarith
  qed
  ultimately show ?thesis by linarith
qed

lemma round_half_even_near:
  assumes "\<bar>z - of_int n\<bar> < 1 / 2"
  shows "round_half_even z = n"
proof -
  have "of_int (round_half_even z) \<le> z + 1 / 2" "z - 1 / 2 \<le> of_int (round_half_even z)"
    by (rule round_half_even_bounds)+
  with assms have "\<bar>(of_int (round_half_even z) :: rat) - of_int n\<bar> < 1" by linarith
  then have "\<bar>(of_int (round_half_even z - n) :: rat)\<bar> < of_int 1" by simp
  then have "\<bar>round_half_even z - n\<bar> < 1"
    unfolding of_int_abs [symmetric] of_int_less_iff .
  then show ?thesis by linarith
qed

lemma round64_eval:
  assumes "2 powi e \<le> x" and "x < 2 powi (e + 1)" and "- 1022 \<le> e"
    and "\<bar>x / 2 powi (e - 52) - of_int n\<bar> < 1 / 2"
    and "of_int n * 2 powi (e - 52) < (2::rat) powi 1024"
  shows "round64 x = Finite (of_int n * 2 powi (e - 52))"
proof -
  have x: "0 < x" using assms(1) powi2_pos [of e] by linarith
  have b: "binade x = e" using assms(1,2) by (rule binade_unique)
  have n: "nearest x = of_int n * 2 powi (e - 52)"
    using assms(3) by (simp add: nearest_def b max_def round_half_even_near [OF assms(4)])
  show ?thesis
    using assms(5) x by (simp add: round64_pos n)
qed


lemma round64_values:
  "round64 0 = Finite 0"
  "round64 (5) = Finite (5)"
  "round64 (10) = Finite (10)"
  "round64 (20) = Finite (20)"
  "round64 (30) = Finite (30)"
  "round64 (45) = Finite (45)"
  "round64 (55) = Finite (55)"
  "round64 (1000) = Finite (1000)"
  "round64 (1) = Finite (1)"
  "round64 (2) = Finite (2)"
  "round64 (3 / 2) = Finite (3 / 2)"
  "round64 (5 / 2) = Finite (5 / 2)"
  "round64 (1 / 100) = Finite (5764607523034235 / 576460752303423488)"
  "round64 (60) = Finite (60)"
proof -
  show "round64 0 = Finite 0" by (simp add: round64_def)
  show "round64 (5) = Finite (5)"
    using round64_eval [of "2" "5" "5629499534213120"] by (simp add: power_int_def power_one_over)
  show "round64 (10) = Finite (10)"
    using round64_eval [of "3" "10" "5629499534213120"] by (simp add: power_int_def power_one_over)
  show "round64 (20) = Finite (20)"
    using round64_eval [of "4" "20" "5629499534213120"] by (simp add: power_int_def power_one_over)
  show "round64 (30) = Finite (30)"
    using round64_eval [of "4" "30" "8444249301319680"] by (simp add: power_int_def power_one_over)
  show "round64 (45) = Finite (45)"
    using round64_eval [of "5" "45" "6333186975989760"] by (simp add: power_int_def power_one_over)
  show "round64 (55) = Finite (55)"
    using round64_eval [of "5" "55" "7740561859543040"] by (simp add: power_int_def power_one_over)
  show "round64 (1000) = Finite (1000)"
    using round64_eval [of "9" "1000" "8796093022208000"] by (simp add: power_int_def power_one_over)
  show "round64 (1) = Finite (1)"
    using round64_eval [of "0" "1" "4503599627370496"] by (simp add: power_int_def power_one_over)
  show "round64 (2) = Finite (2)"
    using round64_eval [of "1" "2" "4503599627370496"] by (simp add: power_int_def power_one_over)
  show "round64 (3 / 2) = Finite (3 / 2)"
    using round64_eval [of "0" "3 / 2" "6755399441055744"] by (simp add: power_int_def power_one_over)
  show "round64 (5 / 2) = Finite (5 / 2)"
    using round64_eval [of "1" "5 / 2" "5629499534213120"] by (simp add: power_int_def power_one_over)
  show "round64 (1 / 100) = Finite (5764607523034235 / 576460752303423488)"
    using round64_eval [of "-7" "1 / 100" "5764607523034235"] by (simp add: power_int_def power_one_over)
  show "round64 (60) = Finite (60)"
    using round64_eval [of "5" "60" "8444249301319680"] by (simp add: power_int_def power_one_over)
qed

lemma lit_values:
  "lit 1 = Finite 1" "lit 2 = Finite 2" "lit (3 / 2) = Finite (3 / 2)"
  "lit (5 / 2) = Finite (5 / 2)" "lit 10 = Finite 10"
  "lit (1 / 100) = Finite (5764607523034235 / 576460752303423488)"
  by (simp_all add: lit_def round64_values)

lemma one_percent_of_1000:
  "round64 (720575940379279375 / 72057594037927936) = Finite 10"
  using round64_eval [of 3 "720575940379279375 / 72057594037927936" 5629499534213120]
  by (simp add: power_int_def power_one_over)

subsection \<open>The rate formula\<close>

lemma fmul_commute: "fmul a b = fmul b a"
  by (cases a; cases b) (simp_all add: mult.commute)

lemma py_eq_PStr [simp]: "py_eq (PStr a) (PStr b) \<longleftrightarrow> a = b"
  by (simp add: py_eq_def)

lemma service_multipliers_get_PStr:
  "service_multipliers_get (PStr sv) (lit 1) = spec_service_multiplier sv"
  by (simp add: service_multipliers_get_def service_multipliers_def spec_service_multiplier_def)

lemma post_try_converted:
  assumes "py_float parse (dict_get data ''weight'' (PInt 0)) = Inr w"
    and "py_float parse (dict_get data ''length'' (PInt 0)) = Inr l"
    and "py_float parse (dict_get data ''width'' (PInt 0)) = Inr b"
    and "py_float parse (dict_get data ''height'' (PInt 0)) = Inr h"
    and "py_float parse (dict_get data ''declared_value'' (PInt 0)) = Inr dv"
  shows "post_try parse data =
     Inr \<lparr>resp_base_rate = lit 10, resp_weight_rate = fmul w (lit 2),
          resp_distance_multiplier =
            (if \<not> py_eq (dict_get data ''from_country'' (PStr ''US''))
                   (dict_get data ''to_country'' (PStr ''US''))
             then lit (3 / 2) else lit 1),
          resp_service_multiplier =
            service_multipliers_get (dict_get data ''service_type'' (PStr ''standard'')) (lit 1),
          resp_insurance = (if fgt0 dv then fmul dv (lit (1 / 100)) else Finite 0),
          resp_total =
            fadd (fmul (fmul (fadd (lit 10) (fmul w (lit 2)))
                    (if \<not> py_eq (dict_get data ''from_country'' (PStr ''US''))
                           (dict_get data ''to_country'' (PStr ''US''))
                     then lit (3 / 2) else lit 1))
                  (service_multipliers_get (dict_get data ''service_type'' (PStr ''standard''))
                     (lit 1)))
              (if fgt0 dv then fmul dv (lit (1 / 100)) else Finite 0),
          resp_currency = ''USD'',
          resp_estimated_days =
            (if py_eq (dict_get data ''service_type'' (PStr ''standard'')) (PStr ''standard'')
             then ''3-5 business days'' else ''1-2 business days'')\<rparr>"
  using assms by (simp add: post_try_def Let_def)

text \<open>
  Claim C1. For every request whose weight and declared value (and dimensions, when
  given) convert with \<open>float\<close>, and whatever the service type and the two countries
  (strings), the calculator answers with success, and the total is
  \<open>(base_rate + weight * per_kg_rate) * distance_multiplier * service_multiplier + insurance\<close>
  in float arithmetic, with base rate 10.0 and 2.0 per kg. The distance multiplier is 1.0
  for equal countries and 1.5 otherwise, the service multiplier comes from the table with
  1.0 for a service type that is not in it, and the insurance, 1% of a positive declared
  value and 0 otherwise, is added after the multipliers.
\<close>

theorem rate_formula:
  assumes "py_float parse (dict_get data ''weight'' (PInt 0)) = Inr w"
    and "py_float parse (dict_get data ''length'' (PInt 0)) = Inr l"
    and "py_float parse (dict_get data ''width'' (PInt 0)) = Inr b"
    and "py_float parse (dict_get data ''height'' (PInt 0)) = Inr h"
    and "py_float parse (dict_get data ''declared_value'' (PInt 0)) = Inr dv"
    and "dict_get data ''service_type'' (PStr ''standard'') = PStr service_type"
    and "dict_get data ''from_country'' (PStr ''US'') = PStr origin"
    and "dict_get data ''to_country'' (PStr ''US'') = PStr destination"
  shows "post parse (Inr data) =
     Success \<lparr>resp_base_rate = lit 10, resp_weight_rate = fmul w (lit 2),
              resp_distance_multiplier = spec_distance_multiplier origin destination,
              resp_service_multiplier = spec_service_multiplier service_type,
              resp_insurance = spec_insurance dv,
              resp_total = spec_amount w service_type origin destination dv,
              resp_currency = ''USD'',
              resp_estimated_days =
                (if service_type = ''standard'' then ''3-5 business days''
                 else ''1-2 business days'')\<rparr>"
  using assms(6-8)
  by (simp add: post_def post_try_converted [OF assms(1-5)] service_multipliers_get_PStr
      spec_amount_def spec_distance_multiplier_def spec_insurance_def fmul_commute [of dv])

text \<open>
  Ten kilograms overnight, countries and declared value left to their defaults:
  \<open>(10 + 10 * 2) * 1 * 2 + 0 = 60\<close>.
\<close>

theorem rate_formula_witness:
  "py_float no_text (dict_get [''weight'' \<mapsto> PInt 10, ''service_type'' \<mapsto> PStr ''overnight'']
      ''weight'' (PInt 0)) = Inr (Finite 10)
   \<and> py_float no_text (dict_get [''weight'' \<mapsto> PInt 10, ''service_type'' \<mapsto> PStr ''overnight'']
      ''declared_value'' (PInt 0)) = Inr (Finite 0)
   \<and> post no_text (Inr [''weight'' \<mapsto> PInt 10, ''service_type'' \<mapsto> PStr ''overnight'']) =
     Success \<lparr>resp_base_rate = Finite 10, resp_weight_rate = Finite 20,
              resp_distance_multiplier = Finite 1, resp_service_multiplier = Finite 2,
              resp_insurance = Finite 0, resp_total = Finite 60, resp_currency = ''USD'',
              resp_estimated_days = ''1-2 business days''\<rparr>"
proof -
  let ?data = "[''weight'' \<mapsto> PInt 10, ''service_type'' \<mapsto> PStr ''overnight'']"
  have w: "py_float no_text (dict_get ?data ''weight'' (PInt 0)) = Inr (Finite 10)"
    by (simp add: dict_get_def round64_values)
  have z: "py_float no_text (dict_get ?data k (PInt 0)) = Inr (Finite 0)"
    if "k \<noteq> ''weight''" "k \<noteq> ''service_type''" for k
    using that by (simp add: dict_get_def round64_values)
  have s: "dict_get ?data ''service_type'' (PStr ''standard'') = PStr ''overnight''"
    "dict_get ?data ''from_country'' (PStr ''US'') = PStr ''US''"
    "dict_get ?data ''to_country'' (PStr ''US'') = PStr ''US''"
    by (simp_all add: dict_get_def)
  show ?thesis
    using rate_formula [OF w z z z z s] w z [of "''declared_value''"]
    by (simp add: spec_amount_def spec_distance_multiplier_def spec_service_multiplier_def
        spec_insurance_def lit_values round64_values)
qed

text \<open>
  Claim C4. Five kilograms, standard, within the US and nothing declared cost 20.0;
  five kilograms, express, from the US to Canada with 1000 declared cost 55.0. Both
  are exact in double arithmetic: \<open>1000 * 0.01\<close> rounds to 10.0.
\<close>

theorem rate_examples:
  "post parse (Inr [''weight'' \<mapsto> PInt 5, ''service_type'' \<mapsto> PStr ''standard'',
                    ''from_country'' \<mapsto> PStr ''US'', ''to_country'' \<mapsto> PStr ''US'',
                    ''declared_value'' \<mapsto> PInt 0]) =
     Success \<lparr>resp_base_rate = Finite 10, resp_weight_rate = Finite 10,
              resp_distance_multiplier = Finite 1, resp_service_multiplier = Finite 1,
              resp_insurance = Finite 0, resp_total = Finite 20, resp_currency = ''USD'',
              resp_estimated_days = ''3-5 business days''\<rparr>
   \<and> post parse (Inr [''weight'' \<mapsto> PInt 5, ''service_type'' \<mapsto> PStr ''express'',
                      ''from_country'' \<mapsto> PStr ''US'', ''to_country'' \<mapsto> PStr ''CA'',
                      ''declared_value'' \<mapsto> PInt 1000]) =
     Success \<lparr>resp_base_rate = Finite 10, resp_weight_rate = Finite 10,
              resp_distance_multiplier = Finite (3 / 2), resp_service_multiplier = Finite (3 / 2),
              resp_insurance = Finite 10, resp_total = Finite 55, resp_currency = ''USD'',
              resp_estimated_days = ''1-2 business days''\<rparr>"
  by (simp add: post_def post_try_def dict_get_def Let_def round64_values lit_values
      service_multipliers_get_def service_multipliers_def one_percent_of_1000)

subsection \<open>The total grows with the weight\<close>

lemma service_multiplier_positive:
  "\<exists>r. 0 < r \<and> service_multipliers_get k (lit 1) = Finite r"
proof (cases k)
  case (PStr s)
  have "service_multipliers_get (PStr s) (lit 1) = spec_service_multiplier s"
    by (rule service_multipliers_get_PStr)
  moreover have "spec_service_multiplier s = Finite 1 \<or> spec_service_multiplier s = Finite (3 / 2)
      \<or> spec_service_multiplier s = Finite 2 \<or> spec_service_multiplier s = Finite (5 / 2)"
    unfolding spec_service_multiplier_def lit_values by simp
  ultimately have "service_multipliers_get k (lit 1) = Finite 1
      \<or> service_multipliers_get k (lit 1) = Finite (3 / 2)
      \<or> service_multipliers_get k (lit 1) = Finite 2
      \<or> service_multipliers_get k (lit 1) = Finite (5 / 2)"
    unfolding PStr by simp
  then show ?thesis
    by (elim disjE) (rule exI [of _ 1], simp, rule exI [of _ "3 / 2"], simp,
        rule exI [of _ 2], simp, rule exI [of _ "5 / 2"], simp)
qed (simp_all add: service_multipliers_get_def lit_values)

lemma insurance_nonneg:
  "fle (Finite 0) (if fgt0 dv then fmul dv (lit (1 / 100)) else Finite 0)"
proof (cases "fgt0 dv")
  case True
  then have "fle (Finite 0) dv" by (cases dv) simp_all
  then show ?thesis
    using True by (simp add: lit_values fmul_nonneg)
qed simp

lemma post_try_Inr:
  assumes "post_try parse data = Inr r"
  obtains w l b h dv where
    "py_float parse (dict_get data ''weight'' (PInt 0)) = Inr w"
    "py_float parse (dict_get data ''length'' (PInt 0)) = Inr l"
    "py_float parse (dict_get data ''width'' (PInt 0)) = Inr b"
    "py_float parse (dict_get data ''height'' (PInt 0)) = Inr h"
    "py_float parse (dict_get data ''declared_value'' (PInt 0)) = Inr dv"
  using assms by (auto simp: post_try_def Let_def split: sum.splits)

lemma post_Success: "post parse (Inr data) = Success r \<longleftrightarrow> post_try parse data = Inr r"
  by (simp add: post_def split: sum.splits)

lemma total_monotone:
  assumes w1: "fle (Finite 0) w1" and w12: "fle w1 w2"
    and dm: "dm = Finite 1 \<or> dm = Finite (3 / 2)"
    and sm: "0 < s" and ins: "fle (Finite 0) ins"
  shows "fle (fadd (fmul (fmul (fadd (Finite 10) (fmul w1 (Finite 2))) dm) (Finite s)) ins)
             (fadd (fmul (fmul (fadd (Finite 10) (fmul w2 (Finite 2))) dm) (Finite s)) ins)"
proof -
  have "\<exists>d. dm = Finite d \<and> 0 < d" using dm by auto
  then obtain d where d: "dm = Finite d" "0 < d" by blast
  have a0: "fle (Finite 0) (fmul w1 (Finite 2))" using w1 by (rule fmul_nonneg) simp
  have a: "fle (fmul w1 (Finite 2)) (fmul w2 (Finite 2))" using w1 w12 by (rule fmul_mono) simp
  have b0: "fle (Finite 0) (fadd (Finite 10) (fmul w1 (Finite 2)))"
    using _ a0 by (rule fadd_nonneg) simp
  have b: "fle (fadd (Finite 10) (fmul w1 (Finite 2))) (fadd (Finite 10) (fmul w2 (Finite 2)))"
    using a0 a by (rule fadd_mono_right)
  have c0: "fle (Finite 0) (fmul (fadd (Finite 10) (fmul w1 (Finite 2))) dm)"
    unfolding d using b0 d(2) by (rule fmul_nonneg)
  have c: "fle (fmul (fadd (Finite 10) (fmul w1 (Finite 2))) dm)
               (fmul (fadd (Finite 10) (fmul w2 (Finite 2))) dm)"
    unfolding d using b0 b d(2) by (rule fmul_mono)
  have e0: "fle (Finite 0) (fmul (fmul (fadd (Finite 10) (fmul w1 (Finite 2))) dm) (Finite s))"
    using c0 sm by (rule fmul_nonneg)
  have e: "fle (fmul (fmul (fadd (Finite 10) (fmul w1 (Finite 2))) dm) (Finite s))
               (fmul (fmul (fadd (Finite 10) (fmul w2 (Finite 2))) dm) (Finite s))"
    using c0 c sm by (rule fmul_mono)
  show ?thesis using e0 e ins by (rule fadd_mono_left)
qed

lemma post_try_agree:
  assumes "\<forall>k\<in>set rate_keys. data' k = data k"
  shows "post_try parse data' = post_try parse data"
proof -
  have g: "dict_get data' k d = dict_get data k d" if "k \<in> set rate_keys" for k d
    using assms that by (simp add: dict_get_def)
  have keys: "''weight'' \<in> set rate_keys" "''length'' \<in> set rate_keys"
    "''width'' \<in> set rate_keys" "''height'' \<in> set rate_keys"
    "''from_country'' \<in> set rate_keys" "''to_country'' \<in> set rate_keys"
    "''service_type'' \<in> set rate_keys" "''declared_value'' \<in> set rate_keys"
    by (simp_all add: rate_keys_def)
  show ?thesis
    unfolding post_try_def
    by (simp only: g [OF keys(1)] g [OF keys(2)] g [OF keys(3)] g [OF keys(4)] g [OF keys(5)]
        g [OF keys(6)] g [OF keys(7)] g [OF keys(8)])
qed

text \<open>
  Claim C5. The answer of the calculator is a function of the eight request fields it
  reads: two requests that agree on them get the same answer. And the total does not
  decrease when the weight grows: if a request with a weight \<open>w1 >= 0\<close> succeeds,
  then the request that differs only in carrying a weight \<open>w2 >= w1\<close> succeeds too,
  with a total that is at least the first one. This holds for every service type, in
  the table or not, in double arithmetic with its rounding and its infinity.
\<close>

theorem rate_monotone:
  "((\<forall>k\<in>set rate_keys. data' k = data k) \<longrightarrow> post parse (Inr data') = post parse (Inr data))
   \<and> (py_float parse v1 = Inr w1 \<and> py_float parse v2 = Inr w2
        \<and> fle (Finite 0) w1 \<and> fle w1 w2
        \<and> post parse (Inr (data(''weight'' \<mapsto> v1))) = Success r1 \<longrightarrow>
      (\<exists>r2. post parse (Inr (data(''weight'' \<mapsto> v2))) = Success r2
            \<and> fle (resp_total r1) (resp_total r2)))"
proof (intro conjI impI; (elim conjE)?)
  assume "\<forall>k\<in>set rate_keys. data' k = data k"
  then have "post_try parse data' = post_try parse data" by (rule post_try_agree)
  then show "post parse (Inr data') = post parse (Inr data)"
    by (simp add: post_def)
next
  assume v1: "py_float parse v1 = Inr w1" and v2: "py_float parse v2 = Inr w2"
    and w1: "fle (Finite 0) w1" and w12: "fle w1 w2"
    and ok: "post parse (Inr (data(''weight'' \<mapsto> v1))) = Success r1"
  let ?d1 = "data(''weight'' \<mapsto> v1)" and ?d2 = "data(''weight'' \<mapsto> v2)"
  have same: "dict_get ?d2 k d = dict_get ?d1 k d" if "k \<noteq> ''weight''" for k d
    using that by (simp add: dict_get_def)
  from ok have t1: "post_try parse ?d1 = Inr r1" by (simp add: post_Success)
  then obtain w l b h dv where c:
    "py_float parse (dict_get ?d1 ''weight'' (PInt 0)) = Inr w"
    "py_float parse (dict_get ?d1 ''length'' (PInt 0)) = Inr l"
    "py_float parse (dict_get ?d1 ''width'' (PInt 0)) = Inr b"
    "py_float parse (dict_get ?d1 ''height'' (PInt 0)) = Inr h"
    "py_float parse (dict_get ?d1 ''declared_value'' (PInt 0)) = Inr dv"
    by (rule post_try_Inr)
  have c1: "py_float parse (dict_get ?d1 ''weight'' (PInt 0)) = Inr w1"
    using v1 by (simp add: dict_get_def)
  have c2: "py_float parse (dict_get ?d2 ''weight'' (PInt 0)) = Inr w2"
    "py_float parse (dict_get ?d2 ''length'' (PInt 0)) = Inr l"
    "py_float parse (dict_get ?d2 ''width'' (PInt 0)) = Inr b"
    "py_float parse (dict_get ?d2 ''height'' (PInt 0)) = Inr h"
    "py_float parse (dict_get ?d2 ''declared_value'' (PInt 0)) = Inr dv"
    using v2 c(2-5) by (simp_all add: dict_get_def)
  note r1 = post_try_converted [OF c1 c(2-5)]
  note r2 = post_try_converted [OF c2]
  define DM where "DM = (if \<not> py_eq (dict_get ?d1 ''from_country'' (PStr ''US''))
                                 (dict_get ?d1 ''to_country'' (PStr ''US''))
                          then lit (3 / 2) else lit 1)"
  define INS where "INS = (if fgt0 dv then fmul dv (lit (1 / 100)) else Finite 0)"
  obtain s where s: "0 < s"
    "service_multipliers_get (dict_get ?d1 ''service_type'' (PStr ''standard'')) (lit 1) = Finite s"
    using service_multiplier_positive by blast
  have dm: "DM = Finite 1 \<or> DM = Finite (3 / 2)"
    by (simp add: DM_def lit_values)
  have ins: "fle (Finite 0) INS"
    unfolding INS_def by (rule insurance_nonneg)
  have "Inr r1 = post_try parse ?d1" using t1 by simp
  then have T1: "resp_total r1 =
      fadd (fmul (fmul (fadd (Finite 10) (fmul w1 (Finite 2))) DM) (Finite s)) INS"
    unfolding r1 DM_def [symmetric] INS_def [symmetric] s(2) lit_values(2,5) by simp
  obtain r2 where t2: "post_try parse ?d2 = Inr r2" unfolding r2 by simp
  then have "Inr r2 = post_try parse ?d2" by simp
  then have T2: "resp_total r2 =
      fadd (fmul (fmul (fadd (Finite 10) (fmul w2 (Finite 2))) DM) (Finite s)) INS"
    unfolding r2 same [of "''from_country''", simplified] same [of "''to_country''", simplified]
      same [of "''service_type''", simplified]
      DM_def [symmetric] INS_def [symmetric] s(2) lit_values(2,5) by simp
  have "fle (resp_total r1) (resp_total r2)"
    unfolding T1 T2 using w1 w12 dm s(1) ins by (rule total_monotone)
  with t2 show "\<exists>r2. post parse (Inr ?d2) = Success r2 \<and> fle (resp_total r1) (resp_total r2)"
    unfolding post_Success by blast
qed


text \<open>Five and ten kilograms with 1000 declared: 30.0 and 40.0.\<close>

lemma round64_40: "round64 40 = Finite 40"
  using round64_eval [of 5 40 5629499534213120] by (simp add: power_int_def power_one_over)

theorem rate_monotone_witness:
  "py_float no_text (PInt 5) = Inr (Finite 5) \<and> py_float no_text (PInt 10) = Inr (Finite 10)
   \<and> fle (Finite 0) (Finite 5) \<and> fle (Finite 5) (Finite 10)
   \<and> post no_text (Inr ([''declared_value'' \<mapsto> PInt 1000](''weight'' \<mapsto> PInt 5))) =
       Success \<lparr>resp_base_rate = Finite 10, resp_weight_rate = Finite 10,
                resp_distance_multiplier = Finite 1, resp_service_multiplier = Finite 1,
                resp_insurance = Finite 10, resp_total = Finite 30, resp_currency = ''USD'',
                resp_estimated_days = ''3-5 business days''\<rparr>
   \<and> post no_text (Inr ([''declared_value'' \<mapsto> PInt 1000](''weight'' \<mapsto> PInt 10))) =
       Success \<lparr>resp_base_rate = Finite 10, resp_weight_rate = Finite 20,
                resp_distance_multiplier = Finite 1, resp_service_multiplier = Finite 1,
                resp_insurance = Finite 10, resp_total = Finite 40, resp_currency = ''USD'',
                resp_estimated_days = ''3-5 business days''\<rparr>
   \<and> fle (Finite 30) (Finite 40)"
proof -
  have p: "py_float no_text (PInt 5) = Inr (Finite 5)" "py_float no_text (PInt 10) = Inr (Finite 10)"
    by (simp_all add: round64_values)
  have a: "post no_text (Inr ([''declared_value'' \<mapsto> PInt 1000](''weight'' \<mapsto> PInt 5))) =
       Success \<lparr>resp_base_rate = Finite 10, resp_weight_rate = Finite 10,
                resp_distance_multiplier = Finite 1, resp_service_multiplier = Finite 1,
                resp_insurance = Finite 10, resp_total = Finite 30, resp_currency = ''USD'',
                resp_estimated_days = ''3-5 business days''\<rparr>"
    by (simp add: post_def post_try_def dict_get_def Let_def round64_values lit_values
        service_multipliers_get_def service_multipliers_def one_percent_of_1000)
  have b: "post no_text (Inr ([''declared_value'' \<mapsto> PInt 1000](''weight'' \<mapsto> PInt 10))) =
       Success \<lparr>resp_base_rate = Finite 10, resp_weight_rate = Finite 20,
                resp_distance_multiplier = Finite 1, resp_service_multiplier = Finite 1,
                resp_insurance = Finite 10, resp_total = Finite 40, resp_currency = ''USD'',
                resp_estimated_days = ''3-5 business days''\<rparr>"
    by (simp add: post_def post_try_def dict_get_def Let_def round64_values lit_values
        service_multipliers_get_def service_multipliers_def one_percent_of_1000 round64_40)
  show ?thesis
    using rate_monotone [of "[''declared_value'' \<mapsto> PInt 1000]" "[''declared_value'' \<mapsto> PInt 1000]"
            no_text "PInt 5" "Finite 5" "PInt 10" "Finite 10"] p a b
    by simp
qed

subsection \<open>The dimensions\<close>

lemma post_try_dimensions:
  assumes other: "\<forall>k. k \<notin> set dimension_keys \<longrightarrow> data' k = data k"
    and conv: "\<forall>k\<in>set dimension_keys.
                 (\<exists>x. py_float parse (dict_get data k (PInt 0)) = Inr x)
                 \<and> (\<exists>x. py_float parse (dict_get data' k (PInt 0)) = Inr x)"
  shows "post_try parse data' = post_try parse data"
proof -
  have g: "dict_get data' k d = dict_get data k d" if "k \<notin> set dimension_keys" for k d
    using other that by (simp add: dict_get_def)
  have keys: "''weight'' \<notin> set dimension_keys"
    "''from_country'' \<notin> set dimension_keys" "''to_country'' \<notin> set dimension_keys"
    "''service_type'' \<notin> set dimension_keys" "''declared_value'' \<notin> set dimension_keys"
    by (simp_all add: dimension_keys_def)
  from conv obtain l b h l' b' h' where d:
    "py_float parse (dict_get data ''length'' (PInt 0)) = Inr l"
    "py_float parse (dict_get data ''width'' (PInt 0)) = Inr b"
    "py_float parse (dict_get data ''height'' (PInt 0)) = Inr h"
    "py_float parse (dict_get data' ''length'' (PInt 0)) = Inr l'"
    "py_float parse (dict_get data' ''width'' (PInt 0)) = Inr b'"
    "py_float parse (dict_get data' ''height'' (PInt 0)) = Inr h'"
    by (auto simp: dimension_keys_def)
  show ?thesis
    unfolding post_try_def
    by (simp only: g [OF keys(1)] g [OF keys(2)] g [OF keys(3)] g [OF keys(4)] g [OF keys(5)] d
        sum.case)
qed

text \<open>
  Claim C10, as the code has it. The three dimensions are converted with \<open>float\<close>
  and then never used: two requests that differ only in length, width and height, and
  whose dimensions all convert, get the same answer, total and breakdown alike. A
  dimension that does not convert makes the request fail with status 400.
\<close>

theorem dimensions_ignored:
  "((\<forall>k. k \<notin> set dimension_keys \<longrightarrow> data' k = data k)
     \<and> (\<forall>k\<in>set dimension_keys.
           (\<exists>x. py_float parse (dict_get data k (PInt 0)) = Inr x)
           \<and> (\<exists>x. py_float parse (dict_get data' k (PInt 0)) = Inr x)) \<longrightarrow>
      post parse (Inr data') = post parse (Inr data))
   \<and> ((\<exists>k\<in>set dimension_keys. \<exists>e. py_float parse (dict_get data k (PInt 0)) = Inl e) \<longrightarrow>
      (\<exists>e. post parse (Inr data) = Failure e 400))"
proof (intro conjI impI; (elim conjE)?)
  assume "\<forall>k. k \<notin> set dimension_keys \<longrightarrow> data' k = data k"
    and "\<forall>k\<in>set dimension_keys.
           (\<exists>x. py_float parse (dict_get data k (PInt 0)) = Inr x)
           \<and> (\<exists>x. py_float parse (dict_get data' k (PInt 0)) = Inr x)"
  then have "post_try parse data' = post_try parse data" by (rule post_try_dimensions)
  then show "post parse (Inr data') = post parse (Inr data)" by (simp add: post_def)
next
  assume "\<exists>k\<in>set dimension_keys. \<exists>e. py_float parse (dict_get data k (PInt 0)) = Inl e"
  then have "\<exists>e. post_try parse data = Inl e"
    by (auto simp: dimension_keys_def post_try_def Let_def split: sum.splits)
  then show "\<exists>e. post parse (Inr data) = Failure e 400"
    by (auto simp: post_def)
qed

text \<open>
  The claim as it was stated fails on two requests that differ only in the length:
  with the length 1 the answer is the total 20.0, with the length \<open>null\<close> it is the
  failure that \<open>float(None)\<close> raises.
\<close>

theorem dimensions_ignored_counterexample:
  "post no_text (Inr [''weight'' \<mapsto> PInt 5, ''length'' \<mapsto> PInt 1]) =
     Success \<lparr>resp_base_rate = Finite 10, resp_weight_rate = Finite 10,
              resp_distance_multiplier = Finite 1, resp_service_multiplier = Finite 1,
              resp_insurance = Finite 0, resp_total = Finite 20, resp_currency = ''USD'',
              resp_estimated_days = ''3-5 business days''\<rparr>
   \<and> post no_text (Inr [''weight'' \<mapsto> PInt 5, ''length'' \<mapsto> PNone]) = Failure TypeError 400"
  by (simp add: post_def post_try_def dict_get_def Let_def round64_values lit_values
      service_multipliers_get_def service_multipliers_def)

text \<open>
  A request with length 30 and width \<open>True\<close> is answered like the one without
  dimensions; the one with the length \<open>null\<close> fails.
\<close>

theorem dimensions_ignored_witness:
  "post no_text (Inr [''weight'' \<mapsto> PInt 5, ''length'' \<mapsto> PInt 30, ''width'' \<mapsto> PBool True]) =
     post no_text (Inr [''weight'' \<mapsto> PInt 5])
   \<and> post no_text (Inr [''weight'' \<mapsto> PInt 5]) =
     Success \<lparr>resp_base_rate = Finite 10, resp_weight_rate = Finite 10,
              resp_distance_multiplier = Finite 1, resp_service_multiplier = Finite 1,
              resp_insurance = Finite 0, resp_total = Finite 20, resp_currency = ''USD'',
              resp_estimated_days = ''3-5 business days''\<rparr>
   \<and> py_float no_text (dict_get [''weight'' \<mapsto> PInt 5, ''length'' \<mapsto> PNone] ''length'' (PInt 0)) =
       Inl TypeError
   \<and> post no_text (Inr [''weight'' \<mapsto> PInt 5, ''length'' \<mapsto> PNone]) = Failure TypeError 400"
proof -
  have a: "post no_text (Inr [''weight'' \<mapsto> PInt 5]) =
     Success \<lparr>resp_base_rate = Finite 10, resp_weight_rate = Finite 10,
              resp_distance_multiplier = Finite 1, resp_service_multiplier = Finite 1,
              resp_insurance = Finite 0, resp_total = Finite 20, resp_currency = ''USD'',
              resp_estimated_days = ''3-5 business days''\<rparr>"
    by (simp add: post_def post_try_def dict_get_def Let_def round64_values lit_values
        service_multipliers_get_def service_multipliers_def)
  have b: "post no_text (Inr [''weight'' \<mapsto> PInt 5, ''length'' \<mapsto> PNone]) =
             Failure TypeError 400"
    by (simp add: post_def post_try_def dict_get_def round64_values)
  have c: "\<forall>k. k \<notin> set dimension_keys \<longrightarrow>
      [''weight'' \<mapsto> PInt 5, ''length'' \<mapsto> PInt 30, ''width'' \<mapsto> PBool True] k =
      [''weight'' \<mapsto> PInt 5] k"
    by (simp add: dimension_keys_def)
  have d: "\<forall>k\<in>set dimension_keys.
      (\<exists>x. py_float no_text (dict_get [''weight'' \<mapsto> PInt 5] k (PInt 0)) = Inr x)
      \<and> (\<exists>x. py_float no_text (dict_get [''weight'' \<mapsto> PInt 5, ''length'' \<mapsto> PInt 30,
                                          ''width'' \<mapsto> PBool True] k (PInt 0)) = Inr x)"
    by (simp add: dimension_keys_def dict_get_def round64_values)
  show ?thesis
    using dimensions_ignored [of "[''weight'' \<mapsto> PInt 5, ''length'' \<mapsto> PInt 30,
            ''width'' \<mapsto> PBool True]" "[''weight'' \<mapsto> PInt 5]" no_text] c d
          dimensions_ignored [of "[''weight'' \<mapsto> PInt 5, ''length'' \<mapsto> PNone]"
            "[''weight'' \<mapsto> PInt 5, ''length'' \<mapsto> PNone]" no_text] a b
    by (simp add: dict_get_def)
qed

subsection \<open>The API twin of the webhook\<close>

text \<open>
  The twin in the API stores a status change like \<open>webhook_update\<close>, but it has no
  not-found answer: for a number that nothing carries the view ends with an
  \<open>AttributeError\<close>, and the store is unchanged.
\<close>

lemma TrackingWebhookView_post_unknown:
  assumes "find (\<lambda>s. Some (tracking_number s) = data_get data ''tracking_number'' None)
             (shipments db) = None"
    and "find (\<lambda>c. Some (consignment_number c) = data_get data ''tracking_number'' None)
           (consignments db) = None"
  shows "TrackingWebhookView_post u (Inr data) db = (Inl AttributeError, db)"
  using assms by (simp add: TrackingWebhookView_post_def Let_def)

lemma TrackingWebhookView_post_sample:
  "TrackingWebhookView_post 0 (Inr unknown_body) depot_store = (Inl AttributeError, depot_store)"
  "TrackingWebhookView_post 0 (Inr delivered_body) depot_store =
     (Inr (JsonMessage ''Shipment SH42 updated to delivered''),
      depot_store\<lparr>shipments := [booked_parcel\<lparr>status := ''delivered''\<rparr>],
        shipment_histories := shipment_histories depot_store @
          [\<lparr>h_shipment = 1, h_status = ''delivered'', h_location = [], h_description = [],
            h_created_by = None\<rparr>]\<rparr>)"
  by (simp_all add: depot_defs TrackingWebhookView_post_def Shipment_save_def model_save_def
      ShipmentHistory_create_def Let_def)

end
